theory Spec2Isabelle
  imports Main "HOL-Library.Word"
begin

section \<open>The anchor ledger (contracts/ReceiptAnchor.sol)\<close>

text \<open>
  Solidity value types are machine words: \<open>bytes32\<close> and \<open>uint256\<close> are 256-bit words, an
  \<open>address\<close> is a 160-bit word. A \<open>string\<close> is its sequence of bytes, so
  \<open>bytes(ipfsCid).length\<close> is the length of the list.
\<close>

type_synonym bytes32 = "256 word"
type_synonym uint256 = "256 word"
type_synonym address = "160 word"

text \<open>
  \<open>struct Receipt\<close>. The field \<open>ipfsCid\<close> of the struct is named \<open>ipfsCid_sol\<close> here,
  since the off-chain receipt document has a field \<open>ipfsCid\<close> too.
\<close>

record Receipt =
  receiptHash :: bytes32
  ipfsCid_sol :: string
  originalTxHash :: bytes32
  anchoredBy :: address
  anchoredAt :: uint256

text \<open>
  The contract's storage: the mapping \<open>receipts\<close> (every key reads as the zero-valued
  struct until it is written) and the dynamic array \<open>receiptIds\<close>.
\<close>

record ReceiptAnchor =
  receipts :: "bytes32 \<Rightarrow> Receipt"
  receiptIds :: "bytes32 list"

definition zero_Receipt :: Receipt where
  "zero_Receipt =
     \<lparr>receiptHash = 0, ipfsCid_sol = [], originalTxHash = 0, anchoredBy = 0, anchoredAt = 0\<rparr>"

text \<open>The storage of a freshly deployed contract.\<close>

definition deployed :: ReceiptAnchor where
  "deployed = \<lparr>receipts = (\<lambda>_. zero_Receipt), receiptIds = []\<rparr>"

text \<open>The part of the transaction context the contract reads.\<close>

record env =
  msg_sender :: address
  block_timestamp :: uint256

text \<open>\<open>event ReceiptAnchored\<close>, with its six arguments in order.\<close>

datatype event = ReceiptAnchored bytes32 bytes32 string bytes32 address uint256

text \<open>
  A failed \<open>require\<close> reverts the call with its reason string, and a failed array index
  check panics; either way the storage is as it was before the call.
\<close>

datatype revert = Revert string | Panic

definition AlreadyAnchored :: revert where
  "AlreadyAnchored = Revert ''Receipt already anchored''"

definition InvalidReceiptHash :: revert where
  "InvalidReceiptHash = Revert ''Invalid receipt hash''"

definition InvalidIpfsCid :: revert where
  "InvalidIpfsCid = Revert ''Invalid IPFS CID''"

text \<open>
  \<open>anchorReceipt\<close>: the three \<open>require\<close>s in the order of the source, then the write of
  the struct, the push and the event. On success the new storage and the emitted event are
  returned.
\<close>

definition anchorReceipt ::
  "env \<Rightarrow> bytes32 \<Rightarrow> bytes32 \<Rightarrow> string \<Rightarrow> bytes32 \<Rightarrow> ReceiptAnchor
     \<Rightarrow> revert + ReceiptAnchor \<times> event" where
  "anchorReceipt e receiptId rHash cid origTx s =
     (if \<not> (anchoredAt (receipts s receiptId) = 0) then Inl AlreadyAnchored
      else if \<not> (rHash \<noteq> 0) then Inl InvalidReceiptHash
      else if \<not> (length cid > 0) then Inl InvalidIpfsCid
      else Inr
        (s\<lparr>receipts := (receipts s)(receiptId :=
             \<lparr>receiptHash = rHash, ipfsCid_sol = cid, originalTxHash = origTx,
              anchoredBy = msg_sender e, anchoredAt = block_timestamp e\<rparr>),
           receiptIds := receiptIds s @ [receiptId]\<rparr>,
         ReceiptAnchored receiptId rHash cid origTx (msg_sender e) (block_timestamp e)))"

definition verifyReceipt_sol :: "ReceiptAnchor \<Rightarrow> bytes32 \<Rightarrow> bytes32 \<Rightarrow> bool" where
  "verifyReceipt_sol s receiptId rHash =
     (let r = receipts s receiptId
      in if anchoredAt r = 0 then False else receiptHash r = rHash)"

definition getReceipt :: "ReceiptAnchor \<Rightarrow> bytes32 \<Rightarrow> Receipt" where
  "getReceipt s receiptId = receipts s receiptId"

definition receiptExists :: "ReceiptAnchor \<Rightarrow> bytes32 \<Rightarrow> bool" where
  "receiptExists s receiptId = (anchoredAt (receipts s receiptId) > 0)"

definition getReceiptCount :: "ReceiptAnchor \<Rightarrow> nat" where
  "getReceiptCount s = length (receiptIds s)"

text \<open>
  \<open>getReceiptsByAgent\<close> scans \<open>receiptIds\<close> twice. The first loop counts the entries whose
  record was anchored by \<open>agent\<close>; the loop variable \<open>i\<close> runs from its current value to
  the length of the array. Indices and counters are natural numbers: they are bounded by
  the length of the array, so the checked \<open>uint256\<close> increments never overflow.
\<close>

function count_loop :: "ReceiptAnchor \<Rightarrow> address \<Rightarrow> nat \<Rightarrow> nat \<Rightarrow> nat" where
  "count_loop s agent i count =
     (if i < length (receiptIds s)
      then count_loop s agent (i + 1)
             (if anchoredBy (receipts s (receiptIds s ! i)) = agent then count + 1 else count)
      else count)"
  by pat_completeness auto
termination
  by (relation "measure (\<lambda>(s, agent, i, count). length (receiptIds s) - i)") auto

declare count_loop.simps [simp del]

text \<open>
  The second loop writes the matching ids into the result array at \<open>idx\<close>. A write past
  the end of a memory array panics.
\<close>

function build_loop ::
  "ReceiptAnchor \<Rightarrow> address \<Rightarrow> nat \<Rightarrow> nat \<Rightarrow> bytes32 list \<Rightarrow> revert + bytes32 list" where
  "build_loop s agent i idx result =
     (if i < length (receiptIds s)
      then (if anchoredBy (receipts s (receiptIds s ! i)) = agent
            then (if idx < length result
                  then build_loop s agent (i + 1) (idx + 1) (result[idx := receiptIds s ! i])
                  else Inl Panic)
            else build_loop s agent (i + 1) idx result)
      else Inr result)"
  by pat_completeness auto
termination
  by (relation "measure (\<lambda>(s, agent, i, idx, result). length (receiptIds s) - i)") auto

declare build_loop.simps [simp del]

definition getReceiptsByAgent :: "ReceiptAnchor \<Rightarrow> address \<Rightarrow> revert + bytes32 list" where
  "getReceiptsByAgent s agent =
     (let count = count_loop s agent 0 0;
          result = replicate count (0 :: bytes32)
      in build_loop s agent 0 0 result)"

text \<open>
  A call of \<open>anchorReceipt\<close> as a transaction: its context and its four arguments. A
  transaction that reverts leaves the storage as it was; \<open>transact\<close> gives the storage
  after one transaction and \<open>transact_all\<close> after a sequence of them.
\<close>

record anchor_call =
  call_env :: env
  call_receiptId :: bytes32
  call_receiptHash :: bytes32
  call_ipfsCid :: string
  call_originalTxHash :: bytes32

definition transact :: "ReceiptAnchor \<Rightarrow> anchor_call \<Rightarrow> ReceiptAnchor" where
  "transact s c =
     (case anchorReceipt (call_env c) (call_receiptId c) (call_receiptHash c) (call_ipfsCid c)
             (call_originalTxHash c) s of
        Inl err \<Rightarrow> s
      | Inr (s', ev) \<Rightarrow> s')"

definition transact_all :: "ReceiptAnchor \<Rightarrow> anchor_call list \<Rightarrow> ReceiptAnchor" where
  "transact_all s cs = foldl transact s cs"

text \<open>
  The calls of a sequence that were accepted, in order: a reverted call leaves no trace in
  the storage.
\<close>

fun accepted :: "ReceiptAnchor \<Rightarrow> anchor_call list \<Rightarrow> anchor_call list" where
  "accepted s [] = []"
| "accepted s (c # cs) =
     (case anchorReceipt (call_env c) (call_receiptId c) (call_receiptHash c) (call_ipfsCid c)
             (call_originalTxHash c) s of
        Inl err \<Rightarrow> accepted s cs
      | Inr (s', ev) \<Rightarrow> c # accepted s' cs)"

text \<open>
  The relation between the storage and the accepted calls that produced it: the id list is
  the list of their ids, and the record of each still names its sender and carries a
  non-zero timestamp.
\<close>

definition ledger_inv :: "ReceiptAnchor \<Rightarrow> anchor_call list \<Rightarrow> bool" where
  "ledger_inv s H \<longleftrightarrow>
     receiptIds s = map call_receiptId H \<and>
     (\<forall>c \<in> set H. anchoredBy (receipts s (call_receiptId c)) = msg_sender (call_env c) \<and>
                   anchoredAt (receipts s (call_receiptId c)) \<noteq> 0)"

text \<open>A call for the scenarios: sender and id vary, the other arguments are fixed.\<close>

definition scenario_call :: "address \<Rightarrow> bytes32 \<Rightarrow> anchor_call" where
  "scenario_call a i =
     \<lparr>call_env = \<lparr>msg_sender = a, block_timestamp = 1700000000\<rparr>, call_receiptId = i,
      call_receiptHash = 7, call_ipfsCid = ''loc'', call_originalTxHash = 9\<rparr>"

section \<open>The receipt document (src/types.ts)\<close>

text \<open>
  The TypeScript interfaces are records. An optional field (\<open>f?: T\<close>) is an \<open>option\<close>,
  \<open>None\<close> for \<open>undefined\<close>. The string-literal union types (chain, commerce type, payment
  status, role, version) are strings, as they are at run time. A string is a list of
  8-bit characters. \<open>blockNumber\<close> is an integer: block numbers are far below \<open>2^53\<close>,
  where the conversion \<open>Number(bigint)\<close> is exact. A few fields carry a prefix, where two
  interfaces share a field name: \<open>tx_chain\<close>, \<open>tx_timestamp\<close>, \<open>tx_from\<close>, \<open>tx_to\<close> are
  \<open>chain\<close>, \<open>timestamp\<close>, \<open>from\<close>, \<open>to\<close> of \<open>TransactionProof\<close>, and \<open>commerce_type\<close> is
  \<open>type\<close> of \<open>CommerceContext\<close>.

  An object has its keys in an order, the order in which they were first written, and
  \<open>JSON.stringify\<close> prints them in that order. The three interfaces that
  \<open>computeReceiptHash\<close> serializes, \<open>TransactionProof\<close>, \<open>CommerceTerms\<close> and
  \<open>CommerceContext\<close>, therefore carry the order of their keys beside their fields
  (\<open>tx_key_order\<close>, \<open>terms_key_order\<close>, \<open>commerce_key_order\<close>): the list of the names of the
  keys of the object, each once, as the object enumerates them. An optional field that is
  \<open>None\<close> is a key that is absent or holds \<open>undefined\<close>. The two free-form maps
  (\<open>customTerms\<close>, \<open>metadata\<close>) are lists of pairs, in the order of their keys.
\<close>

typedecl js_unknown \<comment> \<open>a value of the TypeScript type \<open>unknown\<close>\<close>

record TransactionProof =
  tx_chain :: string
  txHash :: string
  blockNumber :: int
  blockHash :: string
  tx_timestamp :: string
  tx_from :: string
  tx_to :: string
  amount :: string
  currency :: string
  gasUsed :: "string option"
  tx_key_order :: "string list"

record CommerceTerms =
  period :: "string option"
  sla :: "string option"
  deliverables :: "string list option"
  refundConditions :: "string option"
  customTerms :: "(string \<times> string) list option"
  terms_key_order :: "string list"

record CommerceContext =
  commerce_type :: string
  description :: string
  orderReference :: "string option"
  invoiceId :: "string option"
  terms :: "CommerceTerms option"
  status :: string
  metadata :: "(string \<times> js_unknown) list option"
  commerce_key_order :: "string list"

record Attestation =
  agent :: string
  agentId :: "string option"
  signature :: string
  timestamp :: string
  role :: string

record AgentReceipt =
  receiptId :: string
  version :: string
  createdAt :: string
  transaction :: TransactionProof
  commerce :: CommerceContext
  attestations :: "Attestation list"
  ipfsCid :: "string option"
  onChainAnchor :: "string option"
  anchorTxHash :: "string option"

record CreateReceiptInput =
  input_txHash :: string
  input_chain :: "string option"
  input_commerce :: CommerceContext
  buyerAgent :: string
  sellerAgent :: string

record VerifyReceiptInput =
  receipt :: AgentReceipt
  checkOnChain :: "bool option"

record Checks =
  transactionExists :: bool
  transactionMatches :: bool
  signaturesValid :: bool
  anchorMatches :: "bool option"
  ipfsAvailable :: "bool option"

record VerificationResult =
  valid :: bool
  checks :: Checks
  errors :: "string list"
  confidence :: int

text \<open>\<open>RECEIPT_DOMAIN\<close> and \<open>RECEIPT_TYPES\<close>, the EIP-712 constants.\<close>

record TypedDataDomain =
  domain_name :: string
  domain_version :: string
  chainId :: int

definition RECEIPT_DOMAIN :: TypedDataDomain where
  "RECEIPT_DOMAIN = \<lparr>domain_name = ''AgentReceipts'', domain_version = ''1'', chainId = 84532\<rparr>"

definition RECEIPT_TYPES :: "(string \<times> (string \<times> string) list) list" where
  "RECEIPT_TYPES =
     [(''Receipt'',
       [(''receiptId'', ''string''), (''txHash'', ''string''), (''amount'', ''string''),
        (''commerceType'', ''string''), (''description'', ''string''), (''status'', ''string''),
        (''timestamp'', ''string'')])]"

section \<open>JavaScript values and the collaborators\<close>

text \<open>
  A thrown exception (a rejected promise, for an \<open>async\<close> function) is the left summand of a
  result; \<open>Error m\<close> is an \<open>Error\<close> object with message \<open>m\<close>, and \<open>error_toString\<close> is what a
  template literal makes of it (an error of a subclass prints the name of its class in the
  place of \<open>Error\<close>; the name is not modelled).
\<close>

datatype js_error = Error string

fun error_toString :: "js_error \<Rightarrow> string" where
  "error_toString (Error m) = ''Error: '' @ m"

text \<open>
  The truth value of an optional string in a condition: \<open>undefined\<close> and the empty string are
  falsy, every other string is truthy.
\<close>

fun truthy :: "string option \<Rightarrow> bool" where
  "truthy None = False"
| "truthy (Some s) = (s \<noteq> [])"

text \<open>
  \<open>String.prototype.toLowerCase\<close> on 8-bit strings: each of the letters \<open>A\<close> to \<open>Z\<close> is
  replaced by its lower-case letter, every other character is kept. Addresses are
  hexadecimal ASCII strings.
\<close>

definition toLowerCase_char :: "char \<Rightarrow> char" where
  "toLowerCase_char c =
     (case map_of (zip ''ABCDEFGHIJKLMNOPQRSTUVWXYZ'' ''abcdefghijklmnopqrstuvwxyz'') c of
        Some l \<Rightarrow> l
      | None \<Rightarrow> c)"

definition toLowerCase :: "string \<Rightarrow> string" where
  "toLowerCase s = map toLowerCase_char s"

text \<open>The decimal digits of a number, as a template literal or \<open>toString()\<close> prints it.\<close>

function show_nat :: "nat \<Rightarrow> string" where
  "show_nat n =
     (if n < 10 then [char_of (48 + n)] else show_nat (n div 10) @ [char_of (48 + n mod 10)])"
  by pat_completeness auto
termination
  by (relation "measure (\<lambda>n. n)") auto

declare show_nat.simps [simp del]

definition show_int :: "int \<Rightarrow> string" where
  "show_int i = (if i < 0 then CHR ''-'' # show_nat (nat (- i)) else show_nat (nat i))"

text \<open>\<open>String.prototype.includes\<close>: the argument occurs as a contiguous part.\<close>

fun str_includes :: "string \<Rightarrow> string \<Rightarrow> bool" where
  "str_includes [] sub = (sub = [])"
| "str_includes (x # xs) sub = (take (length sub) (x # xs) = sub \<or> str_includes xs sub)"

text \<open>
  The chain-data collaborator (viem's public client): what a call returns is not decided by
  this program, so the three calls are parameters. A call can throw, and \<open>getTransaction\<close>
  and \<open>getTransactionReceipt\<close> can return a falsy value (\<open>None\<close>).
\<close>

record Log =
  log_address :: string
  log_topics :: "string list option"
  log_data :: string

record Transaction =
  t_from :: string
  t_to :: "string option"
  t_input :: string
  t_blockHash :: "string option"

record TransactionReceipt =
  r_blockNumber :: int
  r_blockHash :: string
  r_status :: string
  r_gasUsed :: int
  r_logs :: "Log list"

record Block =
  b_timestamp :: int

datatype block_query = ByBlockNumber int | ByBlockHash "string option"

record publicClient =
  getTransaction :: "string \<Rightarrow> js_error + Transaction option"
  getTransactionReceipt :: "string \<Rightarrow> js_error + TransactionReceipt option"
  getBlock :: "block_query \<Rightarrow> js_error + Block"

text \<open>
  The library primitives the program composes and does not implement: \<open>keccak256\<close>,
  \<open>formatUnits\<close> and \<open>verifyTypedData\<close> of viem, and \<open>BigInt\<close> and
  \<open>Date.prototype.toISOString\<close> of the language (the last one applied to a number of
  milliseconds). \<open>JSON_stringify_unknown\<close> is what \<open>JSON.stringify\<close> makes of a value of
  type \<open>unknown\<close> (a value of the free-form \<open>metadata\<close>): its text, \<open>None\<close> for a value
  that is left out of an object (\<open>undefined\<close>, a function), or an exception (a \<open>BigInt\<close>,
  a cyclic object).
\<close>

record TypedData =
  td_domain :: TypedDataDomain
  td_types :: "(string \<times> (string \<times> string) list) list"
  td_primaryType :: string
  td_message :: "(string \<times> string) list"

record platform =
  keccak256 :: "8 word list \<Rightarrow> string"
  JSON_stringify_unknown :: "js_unknown \<Rightarrow> js_error + string option"
  BigInt :: "string \<Rightarrow> js_error + int"
  formatUnits :: "int \<Rightarrow> nat \<Rightarrow> string"
  toISOString :: "int \<Rightarrow> js_error + string"
  verifyTypedData :: "string \<Rightarrow> TypedData \<Rightarrow> string \<Rightarrow> js_error + bool"

text \<open>viem's \<open>toBytes\<close> on a string: its bytes.\<close>

definition toBytes :: "string \<Rightarrow> 8 word list" where
  "toBytes s = map of_char s"

section \<open>\<open>JSON.stringify\<close>\<close>

text \<open>
  The text of a string: between double quotes (character \<open>0x22\<close>), with the quote, the
  backslash (\<open>0x5C\<close>) and the control characters below \<open>0x20\<close> escaped.
\<close>

definition hex_digit :: "nat \<Rightarrow> char" where
  "hex_digit n = ''0123456789abcdef'' ! n"

definition JSON_escape :: "char \<Rightarrow> string" where
  "JSON_escape c =
     (if c = CHR 0x22 then [CHR 0x5C, CHR 0x22]
      else if c = CHR 0x5C then [CHR 0x5C, CHR 0x5C]
      else if c = CHR 0x08 then [CHR 0x5C, CHR ''b'']
      else if c = CHR 0x0C then [CHR 0x5C, CHR ''f'']
      else if c = CHR 0x0A then [CHR 0x5C, CHR ''n'']
      else if c = CHR 0x0D then [CHR 0x5C, CHR ''r'']
      else if c = CHR 0x09 then [CHR 0x5C, CHR ''t'']
      else if (of_char c :: nat) < 32
      then [CHR 0x5C] @ ''u00'' @ [hex_digit (of_char c div 16), hex_digit (of_char c mod 16)]
      else [c])"

definition JSON_quote :: "string \<Rightarrow> string" where
  "JSON_quote s = [CHR 0x22] @ concat (map JSON_escape s) @ [CHR 0x22]"

fun comma_join :: "string list \<Rightarrow> string" where
  "comma_join [] = []"
| "comma_join [x] = x"
| "comma_join (x # y # ys) = x @ '','' @ comma_join (y # ys)"

definition JSON_array :: "string list \<Rightarrow> string" where
  "JSON_array texts = ''['' @ comma_join texts @ '']''"

text \<open>
  The text of an object, from its keys in their order, each with what the serializer makes
  of its value: an exception, which ends the serialization, nothing, for a value that is
  left out (\<open>undefined\<close>), or the text of the value.
\<close>

fun JSON_members :: "(string \<times> (js_error + string option)) list \<Rightarrow> js_error + string list" where
  "JSON_members [] = Inr []"
| "JSON_members ((k, v) # ms) =
     (case v of
        Inl err \<Rightarrow> Inl err
      | Inr None \<Rightarrow> JSON_members ms
      | Inr (Some text) \<Rightarrow>
          (case JSON_members ms of
             Inl err \<Rightarrow> Inl err
           | Inr rest \<Rightarrow> Inr ((JSON_quote k @ '':'' @ text) # rest)))"

definition JSON_object :: "(string \<times> (js_error + string option)) list \<Rightarrow> js_error + string" where
  "JSON_object ms =
     (case JSON_members ms of
        Inl err \<Rightarrow> Inl err
      | Inr parts \<Rightarrow> Inr (''{'' @ comma_join parts @ ''}''))"

text \<open>
  An object of an interface: its keys in their order, each with the value of the field of
  that name (nothing, for a name that is no field of the interface).
\<close>

definition in_key_order ::
  "string list \<Rightarrow> (string \<times> (js_error + string option)) list
     \<Rightarrow> (string \<times> (js_error + string option)) list" where
  "in_key_order ks members =
     map (\<lambda>k. (k, case map_of members k of None \<Rightarrow> Inr None | Some v \<Rightarrow> v)) ks"

definition JSON_string :: "string \<Rightarrow> js_error + string option" where
  "JSON_string s = Inr (Some (JSON_quote s))"

definition JSON_optional_string :: "string option \<Rightarrow> js_error + string option" where
  "JSON_optional_string v = Inr (map_option JSON_quote v)"

definition JSON_nested :: "js_error + string \<Rightarrow> js_error + string option" where
  "JSON_nested v = (case v of Inl err \<Rightarrow> Inl err | Inr text \<Rightarrow> Inr (Some text))"

definition JSON_stringify_transaction :: "TransactionProof \<Rightarrow> js_error + string" where
  "JSON_stringify_transaction t =
     JSON_object (in_key_order (tx_key_order t)
       [(''chain'', JSON_string (tx_chain t)),
        (''txHash'', JSON_string (txHash t)),
        (''blockNumber'', Inr (Some (show_int (blockNumber t)))),
        (''blockHash'', JSON_string (blockHash t)),
        (''timestamp'', JSON_string (tx_timestamp t)),
        (''from'', JSON_string (tx_from t)),
        (''to'', JSON_string (tx_to t)),
        (''amount'', JSON_string (amount t)),
        (''currency'', JSON_string (currency t)),
        (''gasUsed'', JSON_optional_string (gasUsed t))])"

definition JSON_stringify_terms :: "CommerceTerms \<Rightarrow> js_error + string" where
  "JSON_stringify_terms t =
     JSON_object (in_key_order (terms_key_order t)
       [(''period'', JSON_optional_string (period t)),
        (''sla'', JSON_optional_string (sla t)),
        (''deliverables'',
           Inr (map_option (\<lambda>ds. JSON_array (map JSON_quote ds)) (deliverables t))),
        (''refundConditions'', JSON_optional_string (refundConditions t)),
        (''customTerms'',
           (case customTerms t of
              None \<Rightarrow> Inr None
            | Some ct \<Rightarrow> JSON_nested (JSON_object (map (\<lambda>(k, v). (k, JSON_string v)) ct))))])"

definition JSON_stringify_commerce ::
  "platform \<Rightarrow> CommerceContext \<Rightarrow> js_error + string" where
  "JSON_stringify_commerce P c =
     JSON_object (in_key_order (commerce_key_order c)
       [(''type'', JSON_string (commerce_type c)),
        (''description'', JSON_string (description c)),
        (''orderReference'', JSON_optional_string (orderReference c)),
        (''invoiceId'', JSON_optional_string (invoiceId c)),
        (''terms'',
           (case terms c of
              None \<Rightarrow> Inr None
            | Some t \<Rightarrow> JSON_nested (JSON_stringify_terms t))),
        (''status'', JSON_string (status c)),
        (''metadata'',
           (case metadata c of
              None \<Rightarrow> Inr None
            | Some md \<Rightarrow>
                JSON_nested
                  (JSON_object (map (\<lambda>(k, u). (k, JSON_stringify_unknown P u)) md))))])"

section \<open>The generator (src/generator.ts)\<close>

definition USDC_ADDRESS :: string where
  "USDC_ADDRESS = ''0x036CbD53842c5426634e7929541eC2318f3dCF7e''"

definition TRANSFER_TOPIC :: string where
  "TRANSFER_TOPIC = ''0xddf252ad1be2c89b69c2b068fc378daa952ba7f163c4a11628f55a4df523b3ef''"

text \<open>
  The loop of \<open>fetchTransactionProof\<close> over the logs of the transaction receipt: \<open>amount\<close> is
  overwritten at every USDC \<open>Transfer\<close> log; \<open>BigInt\<close> can throw on the log's data.
\<close>

fun parse_amount :: "platform \<Rightarrow> Log list \<Rightarrow> string \<Rightarrow> js_error + string" where
  "parse_amount P [] amt = Inr amt"
| "parse_amount P (lg # logs) amt =
     (if toLowerCase (log_address lg) = toLowerCase USDC_ADDRESS
      then (case log_topics lg of
              Some (t0 # ts) \<Rightarrow>
                (if t0 = TRANSFER_TOPIC
                 then (case BigInt P (log_data lg) of
                         Inl err \<Rightarrow> Inl err
                       | Inr v \<Rightarrow> parse_amount P logs (formatUnits P v 6))
                 else parse_amount P logs amt)
            | _ \<Rightarrow> parse_amount P logs amt)
      else parse_amount P logs amt)"

definition fetchTransactionProof ::
  "platform \<Rightarrow> publicClient \<Rightarrow> string \<Rightarrow> js_error + TransactionProof" where
  "fetchTransactionProof P C hash =
     (case getTransaction C hash of
        Inl err \<Rightarrow> Inl err
      | Inr None \<Rightarrow> Inl (Error (''Transaction not found: '' @ hash))
      | Inr (Some tx) \<Rightarrow>
     (case getTransactionReceipt C hash of
        Inl err \<Rightarrow> Inl err
      | Inr None \<Rightarrow> Inl (Error (''Transaction receipt not found: '' @ hash))
      | Inr (Some rc) \<Rightarrow>
     (case getBlock C (ByBlockNumber (r_blockNumber rc)) of
        Inl err \<Rightarrow> Inl err
      | Inr block \<Rightarrow>
     (case parse_amount P (r_logs rc) ''0'' of
        Inl err \<Rightarrow> Inl err
      | Inr amt \<Rightarrow>
     (case toISOString P (b_timestamp block * 1000) of
        Inl err \<Rightarrow> Inl err
      | Inr isoTime \<Rightarrow>
          Inr \<lparr>tx_chain = ''base-sepolia'', txHash = hash, blockNumber = r_blockNumber rc,
               blockHash = r_blockHash rc, tx_timestamp = isoTime, tx_from = t_from tx,
               tx_to = (case t_to tx of None \<Rightarrow> [] | Some a \<Rightarrow> a),
               amount = amt, currency = ''USDC'',
               gasUsed = Some (show_int (r_gasUsed rc)),
               tx_key_order =
                 [''chain'', ''txHash'', ''blockNumber'', ''blockHash'', ''timestamp'',
                  ''from'', ''to'', ''amount'', ''currency'', ''gasUsed'']\<rparr>)))))"

text \<open>
  \<open>createReceipt\<close>. The fresh identifier (\<open>uuidv4()\<close>) and the current time
  (\<open>new Date().toISOString()\<close>) are arguments. The two conditions are on the truth value of
  a string: the empty string does not override. An assignment to a key that the object
  has keeps the order of its keys.
\<close>

definition createReceipt ::
  "platform \<Rightarrow> publicClient \<Rightarrow> string \<Rightarrow> string \<Rightarrow> CreateReceiptInput
     \<Rightarrow> js_error + AgentReceipt" where
  "createReceipt P C uuid now input =
     (case fetchTransactionProof P C (input_txHash input) of
        Inl err \<Rightarrow> Inl err
      | Inr transactionProof \<Rightarrow>
          (let transactionProof1 =
                 (if truthy (Some (buyerAgent input))
                  then transactionProof\<lparr>tx_from := buyerAgent input\<rparr> else transactionProof);
               transactionProof2 =
                 (if truthy (Some (sellerAgent input))
                  then transactionProof1\<lparr>tx_to := sellerAgent input\<rparr> else transactionProof1)
           in Inr \<lparr>receiptId = uuid, version = ''1.0'', createdAt = now,
                   transaction = transactionProof2, commerce = input_commerce input,
                   attestations = [], ipfsCid = None, onChainAnchor = None,
                   anchorTxHash = None\<rparr>))"

definition getReceiptSigningMessage :: "AgentReceipt \<Rightarrow> TypedData" where
  "getReceiptSigningMessage r =
     \<lparr>td_domain = RECEIPT_DOMAIN, td_types = RECEIPT_TYPES, td_primaryType = ''Receipt'',
      td_message =
        [(''receiptId'', receiptId r),
         (''txHash'', txHash (transaction r)),
         (''amount'', amount (transaction r)),
         (''commerceType'', commerce_type (commerce r)),
         (''description'', description (commerce r)),
         (''status'', status (commerce r)),
         (''timestamp'', createdAt r)]\<rparr>"

text \<open>
  \<open>computeReceiptHash\<close>: the object literal has its four keys in the order in which the
  source writes them; \<open>transaction\<close> and \<open>commerce\<close> are the objects of the receipt, with the
  keys in their own order.
\<close>

definition computeReceiptHash :: "platform \<Rightarrow> AgentReceipt \<Rightarrow> js_error + string" where
  "computeReceiptHash P r =
     (case JSON_object
             [(''receiptId'', JSON_string (receiptId r)),
              (''version'', JSON_string (version r)),
              (''transaction'', JSON_nested (JSON_stringify_transaction (transaction r))),
              (''commerce'', JSON_nested (JSON_stringify_commerce P (commerce r)))] of
        Inl err \<Rightarrow> Inl err
      | Inr normalized \<Rightarrow> Inr (keccak256 P (toBytes normalized)))"

section \<open>The signature handler (src/signer.ts)\<close>

text \<open>
  Receipts are JavaScript objects, and an object can be assigned to after it was built (the
  library's own entry point sets \<open>receipt.ipfsCid\<close> on a receipt it holds). For
  \<open>addAttestation\<close> the objects therefore live in a store: a reference is an index into the
  list of the objects allocated so far, and allocating appends to the list. The function
  takes the store and returns it with its result. It reads the object its argument refers
  to; the object literal of its \<open>return\<close>, with the spread of \<open>receipt\<close> and the new array,
  is a newly allocated object. The \<open>throw\<close> happens before anything is allocated. A
  reference that is not allocated stands for a call without a receipt object.
\<close>

type_synonym ref = nat
type_synonym store = "AgentReceipt list"

definition DuplicateAttestation :: "Attestation \<Rightarrow> js_error" where
  "DuplicateAttestation attestation =
     Error (''Agent '' @ agent attestation @ '' has already attested to this receipt'')"

definition TypeError :: js_error where
  "TypeError = Error ''Cannot read properties of undefined''"

definition addAttestation ::
  "store \<Rightarrow> ref \<Rightarrow> Attestation \<Rightarrow> (js_error + ref) \<times> store" where
  "addAttestation h r attestation =
     (if \<not> r < length h then (Inl TypeError, h)
      else
        (case find (\<lambda>a. toLowerCase (agent a) = toLowerCase (agent attestation))
                (attestations (h ! r)) of
           Some existing \<Rightarrow> (Inl (DuplicateAttestation attestation), h)
         | None \<Rightarrow>
             (Inr (length h),
              h @ [(h ! r)\<lparr>attestations := attestations (h ! r) @ [attestation]\<rparr>])))"

text \<open>
  \<open>verifyAttestation\<close>: the call of \<open>verifyTypedData\<close> is inside \<open>try\<close>, and the \<open>catch\<close>
  returns \<open>false\<close>. Before the \<open>try\<close> there is the dynamic import of the library that the
  module imports statically as well, and the construction of the message, which only reads
  fields of the receipt.
\<close>

definition verifyAttestation ::
  "platform \<Rightarrow> AgentReceipt \<Rightarrow> Attestation \<Rightarrow> js_error + bool" where
  "verifyAttestation P r attestation =
     (let typedData = getReceiptSigningMessage r
      in case verifyTypedData P (agent attestation) typedData (signature attestation) of
           Inr isValid \<Rightarrow> Inr isValid
         | Inl err \<Rightarrow> Inr False)"

text \<open>
  A JavaScript \<open>Map\<close> keeps its keys in insertion order; \<open>set\<close> on a key that is present
  replaces the value and keeps the key's place.
\<close>

fun map_set :: "('k \<times> 'v) list \<Rightarrow> 'k \<Rightarrow> 'v \<Rightarrow> ('k \<times> 'v) list" where
  "map_set [] k v = [(k, v)]"
| "map_set ((k', v') # m) k v = (if k' = k then (k, v) # m else (k', v') # map_set m k v)"

text \<open>The loop of \<open>verifyAllAttestations\<close>; an exception of an awaited call leaves it.\<close>

fun verify_loop ::
  "platform \<Rightarrow> AgentReceipt \<Rightarrow> Attestation list \<Rightarrow> (string \<times> bool) list
     \<Rightarrow> js_error + (string \<times> bool) list" where
  "verify_loop P r [] results = Inr results"
| "verify_loop P r (attestation # rest) results =
     (case verifyAttestation P r attestation of
        Inl err \<Rightarrow> Inl err
      | Inr isValid \<Rightarrow> verify_loop P r rest (map_set results (agent attestation) isValid))"

record SigVerification =
  sig_valid :: bool
  sig_results :: "(string \<times> bool) list"

definition verifyAllAttestations ::
  "platform \<Rightarrow> AgentReceipt \<Rightarrow> js_error + SigVerification" where
  "verifyAllAttestations P r =
     (case verify_loop P r (attestations r) [] of
        Inl err \<Rightarrow> Inl err
      | Inr results \<Rightarrow>
          (let allValid = list_all (\<lambda>v. v) (map snd results)
           in Inr \<lparr>sig_valid = allValid, sig_results = results\<rparr>))"

definition hasRequiredAttestations :: "AgentReceipt \<Rightarrow> bool" where
  "hasRequiredAttestations r =
     (let hasBuyer = list_ex (\<lambda>a. role a = ''buyer'') (attestations r);
          hasSeller = list_ex (\<lambda>a. role a = ''seller'') (attestations r)
      in hasBuyer \<and> hasSeller)"

section \<open>The on-chain anchor check (src/storage.ts)\<close>

record AnchorVerification =
  av_exists :: bool
  av_timestamp :: "int option"
  av_anchorer :: "string option"

definition anchor_absent :: AnchorVerification where
  "anchor_absent = \<lparr>av_exists = False, av_timestamp = None, av_anchorer = None\<rparr>"

text \<open>
  \<open>verifyOnChainAnchor\<close>: the early return on a falsy \<open>anchorTxHash\<close>, then the \<open>try\<close> block,
  whose \<open>catch\<close> returns \<open>{ exists: false }\<close>.
\<close>

definition verifyOnChainAnchor ::
  "platform \<Rightarrow> publicClient \<Rightarrow> AgentReceipt \<Rightarrow> AnchorVerification" where
  "verifyOnChainAnchor P C r =
     (case anchorTxHash r of
        None \<Rightarrow> anchor_absent
      | Some anchorTx \<Rightarrow>
          (if anchorTx = [] then anchor_absent
           else
             (let attempt =
                (case getTransaction C anchorTx of
                   Inl err \<Rightarrow> Inl err
                 | Inr None \<Rightarrow> Inr anchor_absent
                 | Inr (Some tx) \<Rightarrow>
                     (case computeReceiptHash P r of
                        Inl err \<Rightarrow> Inl err
                      | Inr expectedHash \<Rightarrow>
                          (if t_input tx = expectedHash
                              \<or> str_includes (t_input tx) (drop 2 expectedHash)
                           then (case getBlock C (ByBlockHash (t_blockHash tx)) of
                                   Inl err \<Rightarrow> Inl err
                                 | Inr block \<Rightarrow>
                                     Inr \<lparr>av_exists = True,
                                          av_timestamp = Some (b_timestamp block),
                                          av_anchorer = Some (t_from tx)\<rparr>)
                           else Inr anchor_absent)))
              in case attempt of
                   Inr result \<Rightarrow> result
                 | Inl err \<Rightarrow> anchor_absent)))"

section \<open>The verifier (src/verifier.ts)\<close>

record TxVerification =
  tv_exists :: bool
  tv_matches :: bool
  tv_errors :: "string list"

text \<open>\<open>verifyTransaction\<close>: the \<open>try\<close> block, and the \<open>catch\<close> that reports the exception.\<close>

definition verifyTransaction :: "publicClient \<Rightarrow> AgentReceipt \<Rightarrow> TxVerification" where
  "verifyTransaction C r =
     (let attempt =
        (case getTransaction C (txHash (transaction r)) of
           Inl err \<Rightarrow> Inl err
         | Inr None \<Rightarrow>
             Inr \<lparr>tv_exists = False, tv_matches = False,
                  tv_errors = [''Transaction not found on chain'']\<rparr>
         | Inr (Some tx) \<Rightarrow>
             (case getTransactionReceipt C (txHash (transaction r)) of
                Inl err \<Rightarrow> Inl err
              | Inr None \<Rightarrow>
                  Inr \<lparr>tv_exists = True, tv_matches = False,
                       tv_errors = [''Transaction receipt not found'']\<rparr>
              | Inr (Some txReceipt) \<Rightarrow>
                  (let errors0 = [];
                       errors1 =
                         (if r_blockNumber txReceipt \<noteq> blockNumber (transaction r)
                          then errors0 @
                            [''Block number mismatch: expected ''
                               @ show_int (blockNumber (transaction r))
                               @ '', got '' @ show_int (r_blockNumber txReceipt)]
                          else errors0);
                       errors2 =
                         (if r_blockHash txReceipt \<noteq> blockHash (transaction r)
                          then errors1 @ [''Block hash mismatch''] else errors1);
                       errors3 =
                         (if r_status txReceipt \<noteq> ''success''
                          then errors2 @ [''Transaction was not successful''] else errors2)
                   in Inr \<lparr>tv_exists = True, tv_matches = (length errors3 = 0),
                           tv_errors = errors3\<rparr>)))
      in case attempt of
           Inr result \<Rightarrow> result
         | Inl err \<Rightarrow>
             \<lparr>tv_exists = False, tv_matches = False,
              tv_errors = [''Error fetching transaction: '' @ error_toString err]\<rparr>)"

text \<open>
  \<open>verifyReceipt\<close> works on the local variables \<open>checks\<close> and \<open>errors\<close>, in four numbered
  steps, and then computes \<open>confidence\<close> and \<open>valid\<close> from \<open>checks\<close> alone. Each step is a
  function on the pair of the two variables.
\<close>

definition initial_checks :: Checks where
  "initial_checks =
     \<lparr>transactionExists = False, transactionMatches = False, signaturesValid = False,
      anchorMatches = None, ipfsAvailable = None\<rparr>"

definition check_transaction ::
  "publicClient \<Rightarrow> AgentReceipt \<Rightarrow> Checks \<times> string list \<Rightarrow> Checks \<times> string list" where
  "check_transaction C r st =
     (case st of (cs, errs) \<Rightarrow>
        (let txVerification = verifyTransaction C r
         in (cs\<lparr>transactionExists := tv_exists txVerification,
                transactionMatches := tv_matches txVerification\<rparr>,
             errs @ tv_errors txVerification)))"

definition check_signatures ::
  "platform \<Rightarrow> AgentReceipt \<Rightarrow> Checks \<times> string list \<Rightarrow> js_error + Checks \<times> string list"
  where
  "check_signatures P r st =
     (case st of (cs, errs) \<Rightarrow>
        (if length (attestations r) = 0
         then Inr (cs\<lparr>signaturesValid := False\<rparr>, errs @ [''No attestations present''])
         else
           (case verifyAllAttestations P r of
              Inl err \<Rightarrow> Inl err
            | Inr sigVerification \<Rightarrow>
                (let errs1 =
                       (if \<not> sig_valid sigVerification
                        then errs @
                          map (\<lambda>(a, v). ''Invalid signature from '' @ a)
                            (filter (\<lambda>(a, v). \<not> v) (sig_results sigVerification))
                        else errs);
                     errs2 =
                       (if \<not> hasRequiredAttestations r
                        then errs1 @
                          [''Missing required attestations (need both buyer and seller)'']
                        else errs1)
                 in Inr (cs\<lparr>signaturesValid := sig_valid sigVerification\<rparr>, errs2)))))"

definition check_anchor ::
  "platform \<Rightarrow> publicClient \<Rightarrow> bool \<Rightarrow> AgentReceipt \<Rightarrow> Checks \<times> string list
     \<Rightarrow> Checks \<times> string list" where
  "check_anchor P C onChain r st =
     (case st of (cs, errs) \<Rightarrow>
        (if onChain \<and> truthy (anchorTxHash r)
         then
           (let anchorVerification = verifyOnChainAnchor P C r
            in (cs\<lparr>anchorMatches := Some (av_exists anchorVerification)\<rparr>,
                (if \<not> av_exists anchorVerification
                 then errs @ [''On-chain anchor not found or does not match'']
                 else errs)))
         else (cs, errs)))"

definition check_ipfs :: "AgentReceipt \<Rightarrow> Checks \<times> string list \<Rightarrow> Checks \<times> string list" where
  "check_ipfs r st =
     (case st of (cs, errs) \<Rightarrow>
        (if truthy (ipfsCid r) then (cs\<lparr>ipfsAvailable := Some True\<rparr>, errs) else (cs, errs)))"

text \<open>The confidence score: seven conditional additions, in the order of the source.\<close>

definition confidence_score :: "Checks \<Rightarrow> int" where
  "confidence_score cs =
     (let c0 = 0;
          c1 = (if transactionExists cs then c0 + 25 else c0);
          c2 = (if transactionMatches cs then c1 + 25 else c1);
          c3 = (if signaturesValid cs then c2 + 30 else c2);
          c4 = (if anchorMatches cs = Some True then c3 + 10 else c3);
          c5 = (if ipfsAvailable cs = Some True then c4 + 10 else c4);
          c6 = (if anchorMatches cs = None then c5 + 5 else c5);
          c7 = (if ipfsAvailable cs = None then c6 + 5 else c6)
      in c7)"

definition overall_valid :: "Checks \<Rightarrow> bool" where
  "overall_valid cs \<longleftrightarrow> transactionExists cs \<and> transactionMatches cs \<and> signaturesValid cs"

text \<open>The parameter default \<open>checkOnChain = true\<close> of the destructuring.\<close>

definition on_chain :: "VerifyReceiptInput \<Rightarrow> bool" where
  "on_chain input = (case checkOnChain input of None \<Rightarrow> True | Some b \<Rightarrow> b)"

definition verifyReceipt ::
  "platform \<Rightarrow> publicClient \<Rightarrow> VerifyReceiptInput \<Rightarrow> js_error + VerificationResult" where
  "verifyReceipt P C input =
     (let r = receipt input;
          onChain = on_chain input;
          st1 = check_transaction C r (initial_checks, [])
      in case check_signatures P r st1 of
           Inl err \<Rightarrow> Inl err
         | Inr st2 \<Rightarrow>
             (case check_ipfs r (check_anchor P C onChain r st2) of
                (cs, errs) \<Rightarrow>
                  Inr \<lparr>valid = overall_valid cs, checks = cs, errors = errs,
                       confidence = confidence_score cs\<rparr>))"

section \<open>Values for the scenarios\<close>

text \<open>
  Stand-ins for the primitives and for the chain, used only to run the functions on
  concrete inputs: they are not the real hash or signature check. In
  \<open>demo_platform\<close> a signature that does not start with \<open>0x\<close> makes \<open>verifyTypedData\<close>
  throw, and the valid signature of an address is a fixed string that ends with it. The
  receipt is the one of scenario A: amount \<open>100.00\<close>, \<open>service_payment\<close>, \<open>paid_in_full\<close>,
  no attestation.
\<close>

definition demo_platform :: platform where
  "demo_platform =
     \<lparr>keccak256 = (\<lambda>bs. ''0x'' @ show_nat (length bs)),
      JSON_stringify_unknown = (\<lambda>u. Inr None),
      BigInt = (\<lambda>s. Inl (Error ''SyntaxError: Cannot convert to a BigInt'')),
      formatUnits = (\<lambda>v d. show_int v),
      toISOString = (\<lambda>ms. Inr (show_int ms)),
      verifyTypedData = (\<lambda>addr td sg.
         if take 2 sg = ''0x'' then Inr (sg = ''0xsigned-by-'' @ addr)
         else Inl (Error ''InvalidSignatureError''))\<rparr>"

definition demo_client :: publicClient where
  "demo_client =
     \<lparr>getTransaction = (\<lambda>h.
         if h = ''0xabc''
         then Inr (Some \<lparr>t_from = ''0xAlice'', t_to = Some ''0xBob'', t_input = ''0x'',
                          t_blockHash = Some ''0xb10c''\<rparr>)
         else Inr None),
      getTransactionReceipt = (\<lambda>h.
         if h = ''0xabc''
         then Inr (Some \<lparr>r_blockNumber = 42, r_blockHash = ''0xb10c'', r_status = ''success'',
                          r_gasUsed = 21000, r_logs = []\<rparr>)
         else Inr None),
      getBlock = (\<lambda>q. Inr \<lparr>b_timestamp = 1700000000\<rparr>)\<rparr>"

definition scenario_receipt :: AgentReceipt where
  "scenario_receipt =
     \<lparr>receiptId = ''r1'', version = ''1.0'', createdAt = ''2026-01-01T00:00:00.000Z'',
      transaction =
        \<lparr>tx_chain = ''base-sepolia'', txHash = ''0xabc'', blockNumber = 42,
         blockHash = ''0xb10c'', tx_timestamp = ''2026-01-01T00:00:00.000Z'',
         tx_from = ''0xBuyer'', tx_to = ''0xSeller'', amount = ''100.00'', currency = ''USDC'',
         gasUsed = None,
         tx_key_order =
           [''chain'', ''txHash'', ''blockNumber'', ''blockHash'', ''timestamp'', ''from'',
            ''to'', ''amount'', ''currency'']\<rparr>,
      commerce =
        \<lparr>commerce_type = ''service_payment'', description = ''API access'',
         orderReference = None, invoiceId = None, terms = None, status = ''paid_in_full'',
         metadata = None, commerce_key_order = [''type'', ''description'', ''status'']\<rparr>,
      attestations = [], ipfsCid = None, onChainAnchor = None, anchorTxHash = None\<rparr>"

definition buyer_attestation :: Attestation where
  "buyer_attestation =
     \<lparr>agent = ''0xBuyer'', agentId = None, signature = ''0xsigned-by-0xBuyer'',
      timestamp = ''2026-01-01T00:00:01.000Z'', role = ''buyer''\<rparr>"

definition seller_attestation :: Attestation where
  "seller_attestation =
     \<lparr>agent = ''0xSeller'', agentId = None, signature = ''0xsigned-by-0xSeller'',
      timestamp = ''2026-01-01T00:00:02.000Z'', role = ''seller''\<rparr>"

text \<open>
  The receipt of scenario A as another party holds it: its \<open>commerce\<close> object has the same
  three keys with the same values, written in another order (\<open>description\<close> first), and
  the buyer's attestation is appended.
\<close>

definition reordered_receipt :: AgentReceipt where
  "reordered_receipt =
     scenario_receipt
       \<lparr>commerce := (commerce scenario_receipt)
          \<lparr>commerce_key_order := [''description'', ''type'', ''status'']\<rparr>,
        attestations := [buyer_attestation]\<rparr>"

text \<open>
  The texts that \<open>JSON.stringify\<close> makes of the two receipts inside \<open>computeReceiptHash\<close>:
  they have the part up to the \<open>commerce\<close> object in common, and the \<open>commerce\<close> object
  starts with \<open>type\<close> in the first and with \<open>description\<close> in the second.
\<close>

definition scenario_transaction_text :: string where
  "scenario_transaction_text =
     ''{'' @ JSON_quote ''chain'' @ '':'' @ JSON_quote ''base-sepolia''
     @ '','' @ JSON_quote ''txHash'' @ '':'' @ JSON_quote ''0xabc''
     @ '','' @ JSON_quote ''blockNumber'' @ '':'' @ ''42''
     @ '','' @ JSON_quote ''blockHash'' @ '':'' @ JSON_quote ''0xb10c''
     @ '','' @ JSON_quote ''timestamp'' @ '':'' @ JSON_quote ''2026-01-01T00:00:00.000Z''
     @ '','' @ JSON_quote ''from'' @ '':'' @ JSON_quote ''0xBuyer''
     @ '','' @ JSON_quote ''to'' @ '':'' @ JSON_quote ''0xSeller''
     @ '','' @ JSON_quote ''amount'' @ '':'' @ JSON_quote ''100.00''
     @ '','' @ JSON_quote ''currency'' @ '':'' @ JSON_quote ''USDC'' @ ''}''"

definition normalized_prefix :: string where
  "normalized_prefix =
     ''{'' @ JSON_quote ''receiptId'' @ '':'' @ JSON_quote ''r1''
     @ '','' @ JSON_quote ''version'' @ '':'' @ JSON_quote ''1.0''
     @ '','' @ JSON_quote ''transaction'' @ '':'' @ scenario_transaction_text
     @ '','' @ JSON_quote ''commerce'' @ '':''"

definition scenario_normalized :: string where
  "scenario_normalized =
     normalized_prefix
     @ ''{'' @ JSON_quote ''type'' @ '':'' @ JSON_quote ''service_payment''
     @ '','' @ JSON_quote ''description'' @ '':'' @ JSON_quote ''API access''
     @ '','' @ JSON_quote ''status'' @ '':'' @ JSON_quote ''paid_in_full'' @ ''}'' @ ''}''"

definition reordered_normalized :: string where
  "reordered_normalized =
     normalized_prefix
     @ ''{'' @ JSON_quote ''description'' @ '':'' @ JSON_quote ''API access''
     @ '','' @ JSON_quote ''type'' @ '':'' @ JSON_quote ''service_payment''
     @ '','' @ JSON_quote ''status'' @ '':'' @ JSON_quote ''paid_in_full'' @ ''}'' @ ''}''"

text \<open>
  An input of \<open>createReceipt\<close> for the transaction of the stand-in chain: the buyer is
  given, the seller is the empty string.
\<close>

definition scenario_input :: CreateReceiptInput where
  "scenario_input =
     \<lparr>input_txHash = ''0xabc'', input_chain = None, input_commerce = commerce scenario_receipt,
      buyerAgent = ''0xBuyer'', sellerAgent = []\<rparr>"

section \<open>Properties of the anchor ledger\<close>

subsection \<open>The two loops of \<open>getReceiptsByAgent\<close>\<close>

lemma count_loop_eq:
  "count_loop s who i count =
     count + length (filter (\<lambda>r. anchoredBy (receipts s r) = who) (drop i (receiptIds s)))"
proof (induction s who i count rule: count_loop.induct)
  case (1 s who i count)
  show ?case
  proof (cases "i < length (receiptIds s)")
    case True
    then have d: "drop i (receiptIds s) = receiptIds s ! i # drop (i + 1) (receiptIds s)"
      by (simp add: Cons_nth_drop_Suc)
    show ?thesis
      using True "1.IH" by (subst count_loop.simps) (simp add: d)
  next
    case False
    then show ?thesis by (subst count_loop.simps) simp
  qed
qed

lemma build_loop_eq:
  "idx + length (filter (\<lambda>r. anchoredBy (receipts s r) = who) (drop i (receiptIds s)))
     \<le> length result \<Longrightarrow>
   build_loop s who i idx result =
     Inr (take idx result
          @ filter (\<lambda>r. anchoredBy (receipts s r) = who) (drop i (receiptIds s))
          @ drop (idx + length (filter (\<lambda>r. anchoredBy (receipts s r) = who)
                                  (drop i (receiptIds s)))) result)"
proof (induction s who i idx result rule: build_loop.induct)
  case (1 s who i idx result)
  show ?case
  proof (cases "i < length (receiptIds s)")
    case False
    then show ?thesis by (subst build_loop.simps) simp
  next
    case True
    then have d: "drop i (receiptIds s) = receiptIds s ! i # drop (i + 1) (receiptIds s)"
      by (simp add: Cons_nth_drop_Suc)
    show ?thesis
    proof (cases "anchoredBy (receipts s (receiptIds s ! i)) = who")
      case False
      with True "1.IH"(2) "1.prems" show ?thesis
        by (subst build_loop.simps) (simp add: d)
    next
      case hit: True
      from "1.prems" hit have lt: "idx < length result" by (simp add: d)
      have ih: "build_loop s who (i + 1) (idx + 1) (result[idx := receiptIds s ! i]) =
         Inr (take (idx + 1) (result[idx := receiptIds s ! i])
          @ filter (\<lambda>r. anchoredBy (receipts s r) = who) (drop (i + 1) (receiptIds s))
          @ drop (idx + 1 + length (filter (\<lambda>r. anchoredBy (receipts s r) = who)
                                  (drop (i + 1) (receiptIds s)))) (result[idx := receiptIds s ! i]))"
        using "1.IH"(1) [OF True hit lt] "1.prems" hit by (simp add: d)
      have t: "take (idx + 1) (result[idx := receiptIds s ! i]) = take idx result @ [receiptIds s ! i]"
        using lt by (simp add: take_Suc_conv_app_nth)
      have dr: "drop (idx + 1 + n) (result[idx := receiptIds s ! i]) = drop (idx + 1 + n) result" for n
        by simp
      have step: "build_loop s who i idx result =
          build_loop s who (i + 1) (idx + 1) (result[idx := receiptIds s ! i])"
        using True hit lt by (subst build_loop.simps) simp
      show ?thesis
        unfolding step using ih t dr [of "length (filter (\<lambda>r. anchoredBy (receipts s r) = who)
                                  (drop (i + 1) (receiptIds s)))"] hit by (simp add: d)
    qed
  qed
qed

lemma getReceiptsByAgent_filter:
  "getReceiptsByAgent s who =
     Inr (filter (\<lambda>r. anchoredBy (receipts s r) = who) (receiptIds s))"
  unfolding getReceiptsByAgent_def Let_def
  by (subst build_loop_eq) (simp_all add: count_loop_eq)

subsection \<open>Write-once\<close>

lemma anchorReceipt_Inr_iff:
  "anchorReceipt e i h c t s = Inr (s', ev) \<longleftrightarrow>
     anchoredAt (receipts s i) = 0 \<and> h \<noteq> 0 \<and> c \<noteq> [] \<and>
     s' = s\<lparr>receipts := (receipts s)(i :=
             \<lparr>receiptHash = h, ipfsCid_sol = c, originalTxHash = t,
              anchoredBy = msg_sender e, anchoredAt = block_timestamp e\<rparr>),
           receiptIds := receiptIds s @ [i]\<rparr> \<and>
     ev = ReceiptAnchored i h c t (msg_sender e) (block_timestamp e)"
  by (auto simp: anchorReceipt_def)

lemma anchored_rejects:
  "anchoredAt (receipts s i) \<noteq> 0 \<Longrightarrow> anchorReceipt e i h c t s = Inl AlreadyAnchored"
  by (simp add: anchorReceipt_def)

lemma transact_keeps_anchored:
  "anchoredAt (receipts s i) \<noteq> 0 \<Longrightarrow> receipts (transact s c) i = receipts s i"
  by (auto simp: transact_def anchorReceipt_def split: sum.splits)

lemma transact_all_keeps_anchored:
  "anchoredAt (receipts s i) \<noteq> 0 \<Longrightarrow> receipts (transact_all s cs) i = receipts s i"
  unfolding transact_all_def
  by (induction cs arbitrary: s) (simp_all add: transact_keeps_anchored)

text \<open>
  Claim C4. The ledger is write-once per receipt id. A first call of \<open>anchorReceipt\<close> for an
  id that has no record yet, with a non-zero hash and a non-empty locator, succeeds and
  stores the record. After it, whatever transactions \<open>cs\<close> follow (accepted or reverted),
  every call with the same id, with any context, hash, locator and transaction hash, reverts
  with \<open>Receipt already anchored\<close>, and \<open>getReceipt\<close> still returns the original record. The
  timestamp of the block of the first call is not zero: the contract takes a non-zero
  \<open>anchoredAt\<close> as the mark of an existing record, and a block's timestamp is its Unix time.
\<close>

theorem anchorReceipt_write_once:
  assumes fresh: "anchoredAt (receipts s i) = 0"
    and h: "h \<noteq> 0" and loc: "loc \<noteq> []"
    and ts: "block_timestamp e \<noteq> 0"
  shows "\<exists>s1 ev. anchorReceipt e i h loc t s = Inr (s1, ev) \<and>
           getReceipt s1 i = \<lparr>receiptHash = h, ipfsCid_sol = loc, originalTxHash = t,
                               anchoredBy = msg_sender e, anchoredAt = block_timestamp e\<rparr> \<and>
           (\<forall>cs e' h' loc' t'.
              anchorReceipt e' i h' loc' t' (transact_all s1 cs) = Inl AlreadyAnchored \<and>
              getReceipt (transact_all s1 cs) i = getReceipt s1 i)"
proof -
  define s1 where "s1 = s\<lparr>receipts := (receipts s)(i :=
             \<lparr>receiptHash = h, ipfsCid_sol = loc, originalTxHash = t,
              anchoredBy = msg_sender e, anchoredAt = block_timestamp e\<rparr>),
           receiptIds := receiptIds s @ [i]\<rparr>"
  have ok: "anchorReceipt e i h loc t s =
      Inr (s1, ReceiptAnchored i h loc t (msg_sender e) (block_timestamp e))"
    using fresh h loc by (simp add: anchorReceipt_Inr_iff s1_def)
  have rec: "receipts s1 i = \<lparr>receiptHash = h, ipfsCid_sol = loc, originalTxHash = t,
                               anchoredBy = msg_sender e, anchoredAt = block_timestamp e\<rparr>"
    by (simp add: s1_def)
  then have marked: "anchoredAt (receipts s1 i) \<noteq> 0"
    using ts by simp
  have later: "anchorReceipt e' i h' loc' t' (transact_all s1 cs) = Inl AlreadyAnchored \<and>
              getReceipt (transact_all s1 cs) i = getReceipt s1 i" for cs e' h' loc' t'
  proof -
    have same: "receipts (transact_all s1 cs) i = receipts s1 i"
      using marked by (rule transact_all_keeps_anchored)
    with marked show ?thesis
      by (simp add: anchored_rejects getReceipt_def)
  qed
  show ?thesis
    using ok rec later by (auto simp: getReceipt_def)
qed

text \<open>
  Scenario C, as an instance of the theorem: on the deployed contract, id 1 is anchored with
  hash 2 and locator \<open>loc1\<close>; a second call for id 1 with hash 5 and locator \<open>loc2\<close> reverts,
  and the record of id 1 is the first one.
\<close>

theorem anchorReceipt_write_once_witness:
  "anchoredAt (receipts deployed 1) = 0 \<and> (2 :: bytes32) \<noteq> 0 \<and> ''loc1'' \<noteq> [] \<and>
   block_timestamp \<lparr>msg_sender = 10, block_timestamp = 1000\<rparr> \<noteq> 0 \<and>
   (case anchorReceipt \<lparr>msg_sender = 10, block_timestamp = 1000\<rparr> 1 2 ''loc1'' 3 deployed of
      Inl err \<Rightarrow> False
    | Inr (s1, ev) \<Rightarrow>
        anchorReceipt \<lparr>msg_sender = 11, block_timestamp = 1001\<rparr> 1 5 ''loc2'' 6 s1
          = Inl AlreadyAnchored \<and>
        getReceipt s1 1 = \<lparr>receiptHash = 2, ipfsCid_sol = ''loc1'', originalTxHash = 3,
                             anchoredBy = 10, anchoredAt = 1000\<rparr>)"
proof -
  have pre: "anchoredAt (receipts deployed 1) = 0" "(2 :: bytes32) \<noteq> 0" "''loc1'' \<noteq> []"
    "block_timestamp \<lparr>msg_sender = 10, block_timestamp = 1000\<rparr> \<noteq> 0"
    by (simp_all add: deployed_def zero_Receipt_def)
  from anchorReceipt_write_once [OF pre, of 3]
  obtain s1 ev where
    ok: "anchorReceipt \<lparr>msg_sender = 10, block_timestamp = 1000\<rparr> 1 2 ''loc1'' 3 deployed
           = Inr (s1, ev)"
    and rec: "getReceipt s1 1 = \<lparr>receiptHash = 2, ipfsCid_sol = ''loc1'', originalTxHash = 3,
                             anchoredBy = 10, anchoredAt = 1000\<rparr>"
    and later: "\<And>cs e' h' loc' t'.
        anchorReceipt e' 1 h' loc' t' (transact_all s1 cs) = Inl AlreadyAnchored"
    by auto
  from later [of _ _ _ _ "[]"] have
    "anchorReceipt \<lparr>msg_sender = 11, block_timestamp = 1001\<rparr> 1 5 ''loc2'' 6 s1
       = Inl AlreadyAnchored"
    by (simp add: transact_all_def)
  with pre ok rec show ?thesis by simp
qed

subsection \<open>The ids anchored by a writer\<close>

lemma ledger_inv_deployed: "ledger_inv deployed []"
  by (simp add: ledger_inv_def deployed_def)

lemma ledger_inv_step:
  assumes inv: "ledger_inv s H"
    and ok: "anchorReceipt (call_env c) (call_receiptId c) (call_receiptHash c) (call_ipfsCid c)
               (call_originalTxHash c) s = Inr (s', ev)"
    and ts: "block_timestamp (call_env c) \<noteq> 0"
  shows "ledger_inv s' (H @ [c])"
proof -
  from ok have fresh: "anchoredAt (receipts s (call_receiptId c)) = 0"
    and s': "s' = s\<lparr>receipts := (receipts s)(call_receiptId c :=
             \<lparr>receiptHash = call_receiptHash c, ipfsCid_sol = call_ipfsCid c,
              originalTxHash = call_originalTxHash c,
              anchoredBy = msg_sender (call_env c), anchoredAt = block_timestamp (call_env c)\<rparr>),
           receiptIds := receiptIds s @ [call_receiptId c]\<rparr>"
    by (simp_all add: anchorReceipt_Inr_iff)
  have other: "call_receiptId d \<noteq> call_receiptId c" if "d \<in> set H" for d
    using inv that fresh by (auto simp: ledger_inv_def)
  show ?thesis
    using inv ts other by (auto simp: ledger_inv_def s')
qed

lemma ledger_inv_transact_all:
  "ledger_inv s H \<Longrightarrow> \<forall>c \<in> set cs. block_timestamp (call_env c) \<noteq> 0 \<Longrightarrow>
   ledger_inv (transact_all s cs) (H @ accepted s cs)"
proof (induction cs arbitrary: s H)
  case Nil
  then show ?case by (simp add: transact_all_def)
next
  case (Cons c cs)
  show ?case
  proof (cases "anchorReceipt (call_env c) (call_receiptId c) (call_receiptHash c)
                  (call_ipfsCid c) (call_originalTxHash c) s")
    case (Inl err)
    then have "transact s c = s" by (simp add: transact_def)
    with Inl Cons.IH [of s H] Cons.prems show ?thesis
      by (simp add: transact_all_def)
  next
    case (Inr p)
    obtain s' ev where p: "p = (s', ev)" by (cases p)
    from Inr p have t: "transact s c = s'" by (simp add: transact_def)
    have "ledger_inv s' (H @ [c])"
      using Cons.prems(1) Inr [unfolded p] Cons.prems(2) by (auto intro: ledger_inv_step)
    from Cons.IH [OF this] Cons.prems(2)
    show ?thesis using Inr p t by (simp add: transact_all_def)
  qed
qed

lemma ledger_inv_filter:
  assumes "ledger_inv s H"
  shows "filter (\<lambda>r. anchoredBy (receipts s r) = who) (receiptIds s) =
         map call_receiptId (filter (\<lambda>c. msg_sender (call_env c) = who) H)"
proof -
  have "filter (\<lambda>r. anchoredBy (receipts s r) = who) (map call_receiptId H) =
        map call_receiptId (filter (\<lambda>c. anchoredBy (receipts s (call_receiptId c)) = who) H)"
    by (simp add: filter_map comp_def)
  also have "filter (\<lambda>c. anchoredBy (receipts s (call_receiptId c)) = who) H =
             filter (\<lambda>c. msg_sender (call_env c) = who) H"
    using assms by (intro filter_cong) (auto simp: ledger_inv_def)
  finally show ?thesis using assms by (simp add: ledger_inv_def)
qed

text \<open>
  Claim C7. In every storage, \<open>getReceiptsByAgent\<close> returns (without a panic) exactly the
  entries of \<open>receiptIds\<close> whose record has \<open>anchoredBy\<close> equal to the given address, in the
  order of \<open>receiptIds\<close>. And after any sequence of transactions on the deployed contract
  (in blocks with non-zero timestamps), it returns the ids of the accepted calls that the
  address sent, in the order in which they were anchored.
\<close>

theorem getReceiptsByAgent_exact:
  "getReceiptsByAgent s who =
     Inr (filter (\<lambda>r. anchoredBy (receipts s r) = who) (receiptIds s)) \<and>
   ((\<forall>c \<in> set cs. block_timestamp (call_env c) \<noteq> 0) \<longrightarrow>
      getReceiptsByAgent (transact_all deployed cs) who =
        Inr (map call_receiptId
               (filter (\<lambda>c. msg_sender (call_env c) = who) (accepted deployed cs))))"
proof -
  have "ledger_inv (transact_all deployed cs) (accepted deployed cs)"
    if "\<forall>c \<in> set cs. block_timestamp (call_env c) \<noteq> 0"
    using ledger_inv_transact_all [OF ledger_inv_deployed that] by simp
  then show ?thesis
    by (auto simp: getReceiptsByAgent_filter dest: ledger_inv_filter)
qed


text \<open>
  Scenario D, as an instance: three anchors by address 10 (ids 1, 3, 4), interleaved with two
  by address 11 (ids 2, 5).
\<close>

theorem getReceiptsByAgent_exact_witness:
  "getReceiptsByAgent
     (transact_all deployed
        [scenario_call 10 1, scenario_call 11 2, scenario_call 10 3, scenario_call 10 4,
         scenario_call 11 5]) 10 = Inr [1, 3, 4]"
proof -
  let ?cs = "[scenario_call 10 1, scenario_call 11 2, scenario_call 10 3, scenario_call 10 4,
              scenario_call 11 5]"
  have ts: "\<forall>c \<in> set ?cs. block_timestamp (call_env c) \<noteq> 0"
    by (simp add: scenario_call_def)
  have acc: "accepted deployed ?cs = ?cs"
    by (simp add: scenario_call_def anchorReceipt_def deployed_def zero_Receipt_def)
  have "getReceiptsByAgent (transact_all deployed ?cs) 10 =
          Inr (map call_receiptId
                 (filter (\<lambda>c. msg_sender (call_env c) = 10) (accepted deployed ?cs)))"
    using getReceiptsByAgent_exact [of deployed 10 ?cs, THEN conjunct2, THEN mp, OF ts] .
  then show ?thesis
    unfolding acc by (simp add: scenario_call_def)
qed

section \<open>Properties of the receipt hash\<close>

text \<open>
  \<open>toBytes\<close> maps different strings to different byte sequences.
\<close>

lemma of_char_word_inj:
  assumes "(of_char c :: 8 word) = of_char d"
  shows "c = d"
proof -
  have "(of_nat (of_char c) :: 8 word) = of_nat (of_char d)"
    using assms by (simp add: of_nat_of_char)
  then have "unat (of_nat (of_char c) :: 8 word) = unat (of_nat (of_char d) :: 8 word)"
    by simp
  then have "(of_char c :: nat) mod 256 = of_char d mod 256"
    by (simp add: unat_of_nat)
  then have "(of_char c :: nat) = of_char d"
    by simp
  then show ?thesis
    by simp
qed

lemma toBytes_inj: "toBytes s = toBytes t \<Longrightarrow> s = t"
  unfolding toBytes_def
  by (rule map_injective) (auto simp: inj_on_def dest: of_char_word_inj)

text \<open>
  The digest is a function of the receipt value and of the primitives: the function reads
  no clock, no random source and no state. It depends on the four fields \<open>receiptId\<close>,
  \<open>version\<close>, \<open>transaction\<close> and \<open>commerce\<close> only, whatever the attestations and the
  anchoring fields are, as long as \<open>transaction\<close> and \<open>commerce\<close> are the same objects: the
  same keys, in the same order, with the same values. This is the case for the receipt that
  \<open>addAttestation\<close> returns and for a receipt whose anchoring fields were set.
\<close>

lemma computeReceiptHash_same_objects:
  assumes "receiptId r1 = receiptId r2" and "version r1 = version r2"
    and "transaction r1 = transaction r2" and "commerce r1 = commerce r2"
  shows "computeReceiptHash P r1 = computeReceiptHash P r2"
  using assms by (simp add: computeReceiptHash_def)

text \<open>The serialization of the two receipts of the scenario.\<close>

lemma show_int_42: "show_int 42 = ''42''"
  by code_simp

lemma scenario_transaction_serialized:
  "JSON_stringify_transaction (transaction scenario_receipt) = Inr scenario_transaction_text"
proof -
  have "blockNumber (transaction scenario_receipt) = 42"
    by (simp add: scenario_receipt_def)
  then have "show_int (blockNumber (transaction scenario_receipt)) = ''42''"
    by (simp add: show_int_42)
  then show ?thesis
    by (simp add: JSON_stringify_transaction_def JSON_object_def in_key_order_def
        JSON_string_def JSON_optional_string_def scenario_receipt_def
        scenario_transaction_text_def)
qed

lemma scenario_commerce_serialized:
  "JSON_stringify_commerce P (commerce scenario_receipt) =
     Inr (''{'' @ JSON_quote ''type'' @ '':'' @ JSON_quote ''service_payment''
     @ '','' @ JSON_quote ''description'' @ '':'' @ JSON_quote ''API access''
     @ '','' @ JSON_quote ''status'' @ '':'' @ JSON_quote ''paid_in_full'' @ ''}'')"
  by (simp add: JSON_stringify_commerce_def JSON_object_def in_key_order_def
      JSON_string_def JSON_optional_string_def scenario_receipt_def)

lemma reordered_commerce_serialized:
  "JSON_stringify_commerce P (commerce reordered_receipt) =
     Inr (''{'' @ JSON_quote ''description'' @ '':'' @ JSON_quote ''API access''
     @ '','' @ JSON_quote ''type'' @ '':'' @ JSON_quote ''service_payment''
     @ '','' @ JSON_quote ''status'' @ '':'' @ JSON_quote ''paid_in_full'' @ ''}'')"
  by (simp add: JSON_stringify_commerce_def JSON_object_def in_key_order_def
      JSON_string_def JSON_optional_string_def scenario_receipt_def reordered_receipt_def)

lemma scenario_receipt_hash:
  "computeReceiptHash P scenario_receipt = Inr (keccak256 P (toBytes scenario_normalized))"
proof -
  have id: "receiptId scenario_receipt = ''r1''" "version scenario_receipt = ''1.0''"
    by (simp_all add: scenario_receipt_def)
  show ?thesis
    by (simp add: computeReceiptHash_def scenario_transaction_serialized
        scenario_commerce_serialized id JSON_object_def JSON_nested_def JSON_string_def
        scenario_normalized_def normalized_prefix_def)
qed

lemma reordered_receipt_hash:
  "computeReceiptHash P reordered_receipt = Inr (keccak256 P (toBytes reordered_normalized))"
proof -
  have id: "receiptId reordered_receipt = ''r1''" "version reordered_receipt = ''1.0''"
    "transaction reordered_receipt = transaction scenario_receipt"
    by (simp_all add: scenario_receipt_def reordered_receipt_def)
  show ?thesis
    by (simp add: computeReceiptHash_def scenario_transaction_serialized
        reordered_commerce_serialized id JSON_object_def JSON_nested_def JSON_string_def
        reordered_normalized_def normalized_prefix_def)
qed

lemma normalized_texts_differ: "scenario_normalized \<noteq> reordered_normalized"
  by (simp add: scenario_normalized_def reordered_normalized_def JSON_quote_def JSON_escape_def)

text \<open>
  Claim C1. The claim is that two receipts that agree on \<open>receiptId\<close>, \<open>version\<close>,
  \<open>transaction\<close> and \<open>commerce\<close> and differ in their attestations have the same digest. The
  function does not achieve this. The two receipts of the scenario have the same
  \<open>receiptId\<close>, \<open>version\<close> and \<open>transaction\<close>, and \<open>commerce\<close> objects with the same keys
  and the same value at every key, in two orders; the second has an attestation more. For
  every hash function, the digest of the first is the hash of one byte sequence and the
  digest of the second is the hash of another, so the digests are equal only where the hash
  function collides: the serializer prints the keys of \<open>commerce\<close> in their order, and
  only the order of the four keys of the outer object is fixed by the source.
\<close>

theorem computeReceiptHash_key_order:
  "receiptId reordered_receipt = receiptId scenario_receipt \<and>
   version reordered_receipt = version scenario_receipt \<and>
   transaction reordered_receipt = transaction scenario_receipt \<and>
   commerce reordered_receipt =
     (commerce scenario_receipt)\<lparr>commerce_key_order := [''description'', ''type'', ''status'']\<rparr> \<and>
   set (commerce_key_order (commerce reordered_receipt)) =
     set (commerce_key_order (commerce scenario_receipt)) \<and>
   (\<forall>P. computeReceiptHash P scenario_receipt =
          Inr (keccak256 P (toBytes scenario_normalized)) \<and>
        computeReceiptHash P reordered_receipt =
          Inr (keccak256 P (toBytes reordered_normalized))) \<and>
   toBytes scenario_normalized \<noteq> toBytes reordered_normalized"
proof -
  have same: "receiptId reordered_receipt = receiptId scenario_receipt"
    "version reordered_receipt = version scenario_receipt"
    "transaction reordered_receipt = transaction scenario_receipt"
    "commerce reordered_receipt =
       (commerce scenario_receipt)\<lparr>commerce_key_order := [''description'', ''type'', ''status'']\<rparr>"
    by (simp_all add: reordered_receipt_def)
  have keys: "set (commerce_key_order (commerce reordered_receipt)) =
     set (commerce_key_order (commerce scenario_receipt))"
    by (auto simp: reordered_receipt_def scenario_receipt_def)
  have "toBytes scenario_normalized \<noteq> toBytes reordered_normalized"
    using normalized_texts_differ toBytes_inj by blast
  with same keys scenario_receipt_hash reordered_receipt_hash show ?thesis by simp
qed

section \<open>Properties of the signature handler\<close>

lemma find_None_iff_no_match:
  "find p xs = None \<longleftrightarrow> \<not> (\<exists>x \<in> set xs. p x)"
  by (induction xs) auto

text \<open>
  Claim C5. Let \<open>r\<close> refer to a receipt of the store. If an attestation of the receipt has
  the signer address of \<open>a\<close>, compared after \<open>toLowerCase\<close>, then \<open>addAttestation\<close> throws the
  duplicate error and the store is as before, so the attestation list of the receipt is
  unchanged. Otherwise it returns a reference to a new object, different from \<open>r\<close>, whose
  attestation list is the list of the receipt with \<open>a\<close> appended at the end and whose other
  fields are those of the receipt; every object of the store, the receipt itself among
  them, is as before.
\<close>

theorem addAttestation_duplicate_or_append:
  assumes "r < length h"
  shows "if \<exists>x \<in> set (attestations (h ! r)). toLowerCase (agent x) = toLowerCase (agent a)
         then addAttestation h r a = (Inl (DuplicateAttestation a), h)
         else \<exists>h'. addAttestation h r a = (Inr (length h), h') \<and>
                length h \<noteq> r \<and> take (length h) h' = h \<and> h' ! r = h ! r \<and>
                h' ! length h = (h ! r)\<lparr>attestations := attestations (h ! r) @ [a]\<rparr>"
proof (cases "\<exists>x \<in> set (attestations (h ! r)). toLowerCase (agent x) = toLowerCase (agent a)")
  case True
  then have "find (\<lambda>x. toLowerCase (agent x) = toLowerCase (agent a)) (attestations (h ! r))
               \<noteq> None"
    by (simp add: find_None_iff_no_match)
  then obtain existing where
    "find (\<lambda>x. toLowerCase (agent x) = toLowerCase (agent a)) (attestations (h ! r))
       = Some existing"
    by auto
  with assms True show ?thesis
    by (simp add: addAttestation_def)
next
  case False
  then have "find (\<lambda>x. toLowerCase (agent x) = toLowerCase (agent a)) (attestations (h ! r))
               = None"
    by (simp add: find_None_iff_no_match)
  with assms False show ?thesis
    by (simp add: addAttestation_def nth_append)
qed

text \<open>
  An instance, on a store with one receipt that the buyer has attested: an attestation with
  the buyer's address in capitals is rejected, and the seller's attestation is appended in
  a new object.
\<close>

theorem addAttestation_duplicate_or_append_witness:
  "addAttestation [scenario_receipt\<lparr>attestations := [buyer_attestation]\<rparr>] 0
     (buyer_attestation\<lparr>agent := ''0XBUYER'', role := ''witness''\<rparr>)
     = (Inl (DuplicateAttestation (buyer_attestation\<lparr>agent := ''0XBUYER'', role := ''witness''\<rparr>)),
        [scenario_receipt\<lparr>attestations := [buyer_attestation]\<rparr>])
   \<and> addAttestation [scenario_receipt\<lparr>attestations := [buyer_attestation]\<rparr>] 0
       seller_attestation
     = (Inr 1, [scenario_receipt\<lparr>attestations := [buyer_attestation]\<rparr>,
                scenario_receipt\<lparr>attestations := [buyer_attestation, seller_attestation]\<rparr>])"
proof -
  let ?h = "[scenario_receipt\<lparr>attestations := [buyer_attestation]\<rparr>]"
  have lc: "toLowerCase ''0XBUYER'' = toLowerCase ''0xBuyer''"
    "toLowerCase ''0xSeller'' \<noteq> toLowerCase ''0xBuyer''"
    by (simp_all add: toLowerCase_def toLowerCase_char_def)
  have r: "0 < length ?h" by simp
  have dup: "addAttestation ?h 0 (buyer_attestation\<lparr>agent := ''0XBUYER'', role := ''witness''\<rparr>)
     = (Inl (DuplicateAttestation (buyer_attestation\<lparr>agent := ''0XBUYER'', role := ''witness''\<rparr>)),
        ?h)"
    using addAttestation_duplicate_or_append
            [OF r, of "buyer_attestation\<lparr>agent := ''0XBUYER'', role := ''witness''\<rparr>"] lc
    by (simp add: buyer_attestation_def)
  from addAttestation_duplicate_or_append [OF r, of seller_attestation] lc
  obtain h' where ok: "addAttestation ?h 0 seller_attestation = (Inr (length ?h), h')"
    and old: "take (length ?h) h' = ?h"
    and new: "h' ! length ?h =
        (?h ! 0)\<lparr>attestations := attestations (?h ! 0) @ [seller_attestation]\<rparr>"
    by (auto simp: buyer_attestation_def seller_attestation_def)
  have "addAttestation ?h 0 seller_attestation
     = (Inr 1, [scenario_receipt\<lparr>attestations := [buyer_attestation]\<rparr>,
                scenario_receipt\<lparr>attestations := [buyer_attestation, seller_attestation]\<rparr>])"
    using ok lc by (simp add: addAttestation_def buyer_attestation_def seller_attestation_def)
  with dup show ?thesis by simp
qed

text \<open>
  Claim C6. For every receipt and every attestation, whatever its signature bytes are,
  \<open>verifyAttestation\<close> returns a boolean and throws nothing. When the signature check of the
  library throws, the result is \<open>false\<close>; when it returns, the result is what it returned.
\<close>

theorem verifyAttestation_never_throws:
  "(\<exists>b. verifyAttestation P r a = Inr b) \<and>
   (\<forall>err. verifyTypedData P (agent a) (getReceiptSigningMessage r) (signature a) = Inl err
      \<longrightarrow> verifyAttestation P r a = Inr False) \<and>
   (\<forall>b. verifyTypedData P (agent a) (getReceiptSigningMessage r) (signature a) = Inr b
      \<longrightarrow> verifyAttestation P r a = Inr b)"
  by (cases "verifyTypedData P (agent a) (getReceiptSigningMessage r) (signature a)")
     (auto simp: verifyAttestation_def)

text \<open>
  An instance: a signature that is not hexadecimal makes the stand-in check throw, and
  \<open>verifyAttestation\<close> returns \<open>false\<close>.
\<close>

theorem verifyAttestation_never_throws_witness:
  "verifyTypedData demo_platform (agent (buyer_attestation\<lparr>signature := ''not hex''\<rparr>))
      (getReceiptSigningMessage scenario_receipt)
      (signature (buyer_attestation\<lparr>signature := ''not hex''\<rparr>))
     = Inl (Error ''InvalidSignatureError'') \<and>
   verifyAttestation demo_platform scenario_receipt
      (buyer_attestation\<lparr>signature := ''not hex''\<rparr>) = Inr False"
proof -
  have thrown:
    "verifyTypedData demo_platform (agent (buyer_attestation\<lparr>signature := ''not hex''\<rparr>))
      (getReceiptSigningMessage scenario_receipt)
      (signature (buyer_attestation\<lparr>signature := ''not hex''\<rparr>))
     = Inl (Error ''InvalidSignatureError'')"
    by (simp add: demo_platform_def buyer_attestation_def)
  from verifyAttestation_never_throws
         [of demo_platform scenario_receipt "buyer_attestation\<lparr>signature := ''not hex''\<rparr>"]
       thrown
  show ?thesis by blast
qed

section \<open>Properties of the verifier\<close>

lemma verifyAttestation_Inr: "\<exists>b. verifyAttestation P r a = Inr b"
  by (cases "verifyTypedData P (agent a) (getReceiptSigningMessage r) (signature a)")
     (auto simp: verifyAttestation_def)

lemma verify_loop_Inr: "\<exists>results. verify_loop P r as acc = Inr results"
proof (induction as arbitrary: acc)
  case Nil
  show ?case by simp
next
  case (Cons a as)
  obtain b where "verifyAttestation P r a = Inr b"
    using verifyAttestation_Inr by blast
  with Cons.IH [of "map_set acc (agent a) b"] show ?case by simp
qed

lemma verifyAllAttestations_Inr: "\<exists>sv. verifyAllAttestations P r = Inr sv"
proof -
  obtain results where "verify_loop P r (attestations r) [] = Inr results"
    using verify_loop_Inr by blast
  then show ?thesis by (simp add: verifyAllAttestations_def)
qed

lemma check_signatures_Inr:
  "\<exists>b errs'. check_signatures P r (cs, errs) = Inr (cs\<lparr>signaturesValid := b\<rparr>, errs')"
proof (cases "length (attestations r) = 0")
  case True
  then have "check_signatures P r (cs, errs) =
      Inr (cs\<lparr>signaturesValid := False\<rparr>, errs @ [''No attestations present''])"
    by (simp add: check_signatures_def)
  then show ?thesis by blast
next
  case False
  obtain sv where "verifyAllAttestations P r = Inr sv"
    using verifyAllAttestations_Inr by blast
  with False have "\<exists>errs'. check_signatures P r (cs, errs) =
      Inr (cs\<lparr>signaturesValid := sig_valid sv\<rparr>, errs')"
    by (simp add: check_signatures_def Let_def)
  then show ?thesis by blast
qed

lemma check_signatures_none:
  "attestations r = [] \<Longrightarrow>
   check_signatures P r (cs, errs) =
     Inr (cs\<lparr>signaturesValid := False\<rparr>, errs @ [''No attestations present''])"
  by (simp add: check_signatures_def)

lemma check_anchor_checks:
  "fst (check_anchor P C oc r (cs, errs)) =
     cs\<lparr>anchorMatches :=
          (if oc \<and> truthy (anchorTxHash r) then Some (av_exists (verifyOnChainAnchor P C r))
           else anchorMatches cs)\<rparr>"
  by (simp add: check_anchor_def Let_def)

lemma check_anchor_errors:
  "set errs \<subseteq> set (snd (check_anchor P C oc r (cs, errs)))"
  by (auto simp: check_anchor_def Let_def)

lemma check_ipfs_checks:
  "fst (check_ipfs r (cs, errs)) =
     cs\<lparr>ipfsAvailable := (if truthy (ipfsCid r) then Some True else ipfsAvailable cs)\<rparr>"
  by (simp add: check_ipfs_def)

lemma check_ipfs_errors: "snd (check_ipfs r (cs, errs)) = errs"
  by (simp add: check_ipfs_def)

lemma verifyReceipt_result:
  "\<exists>res b. verifyReceipt P C input = Inr res \<and>
     checks res =
       \<lparr>transactionExists = tv_exists (verifyTransaction C (receipt input)),
        transactionMatches = tv_matches (verifyTransaction C (receipt input)),
        signaturesValid = b,
        anchorMatches =
          (if on_chain input \<and> truthy (anchorTxHash (receipt input))
           then Some (av_exists (verifyOnChainAnchor P C (receipt input))) else None),
        ipfsAvailable = (if truthy (ipfsCid (receipt input)) then Some True else None)\<rparr> \<and>
     valid res = overall_valid (checks res) \<and>
     confidence res = confidence_score (checks res)"
proof -
  let ?r = "receipt input"
  obtain cs1 errs1 where st1: "check_transaction C ?r (initial_checks, []) = (cs1, errs1)"
    by (cases "check_transaction C ?r (initial_checks, [])")
  then have cs1: "cs1 = initial_checks
      \<lparr>transactionExists := tv_exists (verifyTransaction C ?r),
       transactionMatches := tv_matches (verifyTransaction C ?r)\<rparr>"
    by (auto simp: check_transaction_def Let_def)
  obtain b errs2 where st2:
    "check_signatures P ?r (cs1, errs1) = Inr (cs1\<lparr>signaturesValid := b\<rparr>, errs2)"
    using check_signatures_Inr by blast
  obtain cs3 errs3 where st3:
    "check_anchor P C (on_chain input) ?r (cs1\<lparr>signaturesValid := b\<rparr>, errs2) = (cs3, errs3)"
    by (cases "check_anchor P C (on_chain input) ?r (cs1\<lparr>signaturesValid := b\<rparr>, errs2)")
  obtain cs4 errs4 where st4: "check_ipfs ?r (cs3, errs3) = (cs4, errs4)"
    by (cases "check_ipfs ?r (cs3, errs3)")
  have cs3: "cs3 = cs1\<lparr>signaturesValid := b,
      anchorMatches :=
          (if on_chain input \<and> truthy (anchorTxHash ?r)
           then Some (av_exists (verifyOnChainAnchor P C ?r)) else anchorMatches cs1)\<rparr>"
    using check_anchor_checks [of P C "on_chain input" ?r "cs1\<lparr>signaturesValid := b\<rparr>" errs2]
    by (simp add: st3)
  have cs4: "cs4 = cs3\<lparr>ipfsAvailable :=
      (if truthy (ipfsCid ?r) then Some True else ipfsAvailable cs3)\<rparr>"
    using check_ipfs_checks [of ?r cs3 errs3] by (simp add: st4)
  have run: "verifyReceipt P C input =
      Inr \<lparr>valid = overall_valid cs4, checks = cs4, errors = errs4,
           confidence = confidence_score cs4\<rparr>"
    by (simp add: verifyReceipt_def Let_def st1 st2 st3 st4)
  have "cs4 =
       \<lparr>transactionExists = tv_exists (verifyTransaction C ?r),
        transactionMatches = tv_matches (verifyTransaction C ?r),
        signaturesValid = b,
        anchorMatches =
          (if on_chain input \<and> truthy (anchorTxHash ?r)
           then Some (av_exists (verifyOnChainAnchor P C ?r)) else None),
        ipfsAvailable = (if truthy (ipfsCid ?r) then Some True else None)\<rparr>"
    by (simp add: cs4 cs3 cs1 initial_checks_def)
  with run show ?thesis by simp
qed

lemma confidence_score_bounds:
  "0 \<le> confidence_score cs \<and> confidence_score cs \<le> 100"
  by (cases "anchorMatches cs"; cases "ipfsAvailable cs")
     (simp_all add: confidence_score_def Let_def)

lemma confidence_score_valid:
  "overall_valid cs \<Longrightarrow> 80 \<le> confidence_score cs"
  by (cases "anchorMatches cs"; cases "ipfsAvailable cs")
     (simp_all add: confidence_score_def overall_valid_def Let_def)


text \<open>
  Claim C2. For every combination \<open>cs\<close> of check outcomes (three booleans, and two outcomes
  that are true, false or not attempted) the score is between 0 and 100, and it is at least
  80 when the three mandatory outcomes hold. \<open>verifyReceipt\<close> always returns a result; its
  \<open>confidence\<close> and \<open>valid\<close> are the score and the validity of its \<open>checks\<close>, so the
  returned confidence is between 0 and 100, and at least 80 whenever the returned \<open>valid\<close>
  is true.
\<close>

theorem verifyReceipt_confidence_bounds:
  "(0 \<le> confidence_score cs \<and> confidence_score cs \<le> 100 \<and>
      (overall_valid cs \<longrightarrow> 80 \<le> confidence_score cs)) \<and>
   (\<exists>res. verifyReceipt P C input = Inr res \<and>
      confidence res = confidence_score (checks res) \<and>
      valid res = overall_valid (checks res) \<and>
      0 \<le> confidence res \<and> confidence res \<le> 100 \<and>
      (valid res \<longrightarrow> 80 \<le> confidence res))"
proof -
  obtain res where res: "verifyReceipt P C input = Inr res"
    and c: "confidence res = confidence_score (checks res)"
    and v: "valid res = overall_valid (checks res)"
    using verifyReceipt_result [of P C input] by blast
  have "0 \<le> confidence res \<and> confidence res \<le> 100 \<and> (valid res \<longrightarrow> 80 \<le> confidence res)"
    using confidence_score_bounds [of "checks res"] confidence_score_valid [of "checks res"]
    by (simp add: c v)
  with res c v show ?thesis
    using confidence_score_bounds [of cs] confidence_score_valid [of cs] by blast
qed

lemma scenario_B_run:
  "verifyReceipt demo_platform demo_client
     \<lparr>receipt = scenario_receipt\<lparr>attestations := [buyer_attestation, seller_attestation]\<rparr>,
      checkOnChain = None\<rparr> =
   Inr \<lparr>valid = True,
        checks = \<lparr>transactionExists = True, transactionMatches = True, signaturesValid = True,
                  anchorMatches = None, ipfsAvailable = None\<rparr>,
        errors = [], confidence = 90\<rparr>"
  by (simp add: verifyReceipt_def on_chain_def check_transaction_def verifyTransaction_def
      check_signatures_def verifyAllAttestations_def verifyAttestation_def
      hasRequiredAttestations_def check_anchor_def check_ipfs_def confidence_score_def
      overall_valid_def initial_checks_def demo_platform_def demo_client_def
      scenario_receipt_def buyer_attestation_def seller_attestation_def Let_def)

text \<open>
  An instance, scenario B: the receipt with a valid buyer and a valid seller attestation,
  on the stand-in chain. It is valid, with confidence 90.
\<close>

theorem verifyReceipt_confidence_bounds_witness:
  "case verifyReceipt demo_platform demo_client
          \<lparr>receipt = scenario_receipt\<lparr>attestations := [buyer_attestation, seller_attestation]\<rparr>,
           checkOnChain = None\<rparr> of
     Inl err \<Rightarrow> False
   | Inr res \<Rightarrow> valid res \<and> confidence res = 90 \<and> 80 \<le> confidence res \<and> confidence res \<le> 100"
proof -
  let ?input =
    "\<lparr>receipt = scenario_receipt\<lparr>attestations := [buyer_attestation, seller_attestation]\<rparr>,
      checkOnChain = None\<rparr>"
  obtain res where res: "verifyReceipt demo_platform demo_client ?input = Inr res"
    and hi: "confidence res \<le> 100"
    and lo: "valid res \<longrightarrow> 80 \<le> confidence res"
    using verifyReceipt_confidence_bounds [of _ demo_platform demo_client ?input] by blast
  from res have v: "valid res" and c: "confidence res = 90"
    by (auto simp: scenario_B_run)
  from lo v have "80 \<le> confidence res" by simp
  with res v c hi show ?thesis by simp
qed

lemma getReceiptSigningMessage_anchoring:
  "getReceiptSigningMessage (r\<lparr>ipfsCid := c, onChainAnchor := a, anchorTxHash := t\<rparr>) =
   getReceiptSigningMessage r"
  by (simp add: getReceiptSigningMessage_def)

lemma verifyAttestation_cong:
  "getReceiptSigningMessage r' = getReceiptSigningMessage r \<Longrightarrow>
   verifyAttestation P r' a = verifyAttestation P r a"
  by (simp add: verifyAttestation_def)

lemma verify_loop_cong:
  "getReceiptSigningMessage r' = getReceiptSigningMessage r \<Longrightarrow>
   verify_loop P r' as acc = verify_loop P r as acc"
  by (induction as arbitrary: acc)
     (simp_all add: verifyAttestation_cong [of r' r] split: sum.splits)

lemma verifyAllAttestations_anchoring:
  "verifyAllAttestations P (r\<lparr>ipfsCid := c, onChainAnchor := a, anchorTxHash := t\<rparr>) =
   verifyAllAttestations P r"
  by (simp add: verifyAllAttestations_def
      verify_loop_cong [OF getReceiptSigningMessage_anchoring])

lemma hasRequiredAttestations_anchoring:
  "hasRequiredAttestations (r\<lparr>ipfsCid := c, onChainAnchor := a, anchorTxHash := t\<rparr>) =
   hasRequiredAttestations r"
  by (simp add: hasRequiredAttestations_def)

lemma check_signatures_anchoring:
  "check_signatures P (r\<lparr>ipfsCid := c, onChainAnchor := a, anchorTxHash := t\<rparr>) st =
   check_signatures P r st"
  unfolding check_signatures_def verifyAllAttestations_anchoring
    hasRequiredAttestations_anchoring
  by simp

lemma verifyTransaction_anchoring:
  "verifyTransaction C (r\<lparr>ipfsCid := c, onChainAnchor := a, anchorTxHash := t\<rparr>) =
   verifyTransaction C r"
proof -
  have same: "transaction (r\<lparr>ipfsCid := c, onChainAnchor := a, anchorTxHash := t\<rparr>) =
              transaction r"
    by simp
  show ?thesis
    unfolding verifyTransaction_def same by (rule refl)
qed

text \<open>
  Claim C3. The \<open>valid\<close> field of the result of \<open>verifyReceipt\<close> is the conjunction of the
  three mandatory outcomes in its \<open>checks\<close> (the first two are the outcomes of
  \<open>verifyTransaction\<close>). The outcomes \<open>anchorMatches\<close> and \<open>ipfsAvailable\<close> do not change it:
  validity is the same for any values of the two, and the result for a receipt is as valid
  as the result for the same receipt with other anchoring fields, with or without the
  on-chain check.
\<close>

theorem verifyReceipt_valid_conjunction:
  "(\<exists>res. verifyReceipt P C input = Inr res \<and>
      valid res = (transactionExists (checks res) \<and> transactionMatches (checks res) \<and>
                   signaturesValid (checks res)) \<and>
      transactionExists (checks res) = tv_exists (verifyTransaction C (receipt input)) \<and>
      transactionMatches (checks res) = tv_matches (verifyTransaction C (receipt input))) \<and>
   overall_valid (cs\<lparr>anchorMatches := am, ipfsAvailable := ia\<rparr>) = overall_valid cs \<and>
   (\<exists>res1 res2.
      verifyReceipt P C
        \<lparr>receipt = r\<lparr>ipfsCid := c, onChainAnchor := a, anchorTxHash := t\<rparr>,
         checkOnChain = oc\<rparr> = Inr res1 \<and>
      verifyReceipt P C \<lparr>receipt = r, checkOnChain = oc'\<rparr> = Inr res2 \<and>
      valid res1 = valid res2)"
proof -
  obtain res b where res: "verifyReceipt P C input = Inr res"
    and cs: "checks res =
       \<lparr>transactionExists = tv_exists (verifyTransaction C (receipt input)),
        transactionMatches = tv_matches (verifyTransaction C (receipt input)),
        signaturesValid = b,
        anchorMatches =
          (if on_chain input \<and> truthy (anchorTxHash (receipt input))
           then Some (av_exists (verifyOnChainAnchor P C (receipt input))) else None),
        ipfsAvailable = (if truthy (ipfsCid (receipt input)) then Some True else None)\<rparr>"
    and v: "valid res = overall_valid (checks res)"
    using verifyReceipt_result [of P C input] by blast
  have first: "\<exists>res. verifyReceipt P C input = Inr res \<and>
      valid res = (transactionExists (checks res) \<and> transactionMatches (checks res) \<and>
                   signaturesValid (checks res)) \<and>
      transactionExists (checks res) = tv_exists (verifyTransaction C (receipt input)) \<and>
      transactionMatches (checks res) = tv_matches (verifyTransaction C (receipt input))"
    using res v cs by (simp add: overall_valid_def)
  have second: "overall_valid (cs\<lparr>anchorMatches := am, ipfsAvailable := ia\<rparr>) = overall_valid cs"
    by (simp add: overall_valid_def)
  let ?r' = "r\<lparr>ipfsCid := c, onChainAnchor := a, anchorTxHash := t\<rparr>"
  have third: "map_sum id valid (verifyReceipt P C \<lparr>receipt = ?r', checkOnChain = oc\<rparr>) =
     map_sum id valid (verifyReceipt P C \<lparr>receipt = r, checkOnChain = oc'\<rparr>)"
  proof -
    have tx: "check_transaction C ?r' (initial_checks, []) =
              check_transaction C r (initial_checks, [])"
      by (simp add: check_transaction_def verifyTransaction_anchoring)
    obtain cs1 errs1 where st1: "check_transaction C r (initial_checks, []) = (cs1, errs1)"
      by (cases "check_transaction C r (initial_checks, [])")
    obtain b errs2 where st2:
      "check_signatures P r (cs1, errs1) = Inr (cs1\<lparr>signaturesValid := b\<rparr>, errs2)"
      using check_signatures_Inr by blast
    have v: "overall_valid (fst (check_ipfs x (check_anchor P C o' x (cs1\<lparr>signaturesValid := b\<rparr>, errs2))))
          = overall_valid (cs1\<lparr>signaturesValid := b\<rparr>)" for x o'
      by (simp add: check_ipfs_def check_anchor_def overall_valid_def Let_def)
    show ?thesis
      using v [of ?r' "on_chain \<lparr>receipt = ?r', checkOnChain = oc\<rparr>"]
            v [of r "on_chain \<lparr>receipt = r, checkOnChain = oc'\<rparr>"]
      by (auto simp: verifyReceipt_def Let_def tx st1 check_signatures_anchoring st2
          split: prod.splits)
  qed
  obtain res1 where res1: "verifyReceipt P C \<lparr>receipt = ?r', checkOnChain = oc\<rparr> = Inr res1"
    using verifyReceipt_result [of P C "\<lparr>receipt = ?r', checkOnChain = oc\<rparr>"] by blast
  obtain res2 where res2: "verifyReceipt P C \<lparr>receipt = r, checkOnChain = oc'\<rparr> = Inr res2"
    using verifyReceipt_result [of P C "\<lparr>receipt = r, checkOnChain = oc'\<rparr>"] by blast
  from third have "valid res1 = valid res2"
    by (simp add: res1 res2)
  with res1 res2 have fourth: "\<exists>res1 res2.
      verifyReceipt P C \<lparr>receipt = ?r', checkOnChain = oc\<rparr> = Inr res1 \<and>
      verifyReceipt P C \<lparr>receipt = r, checkOnChain = oc'\<rparr> = Inr res2 \<and>
      valid res1 = valid res2"
    by blast
  from first second fourth show ?thesis by blast
qed

text \<open>
  An instance: the receipt of scenario B with a locator and an anchor transaction that the
  stand-in chain does not know is still valid.
\<close>

theorem verifyReceipt_valid_conjunction_witness:
  "case verifyReceipt demo_platform demo_client
          \<lparr>receipt = scenario_receipt\<lparr>attestations := [buyer_attestation, seller_attestation]\<rparr>
                       \<lparr>ipfsCid := Some ''bafyreig00'', onChainAnchor := Some ''0xaa'',
                        anchorTxHash := Some ''0xbb''\<rparr>,
           checkOnChain = Some True\<rparr> of
     Inl err \<Rightarrow> False
   | Inr res \<Rightarrow> valid res"
proof -
  let ?r = "scenario_receipt\<lparr>attestations := [buyer_attestation, seller_attestation]\<rparr>"
  obtain res1 res2 where
    r1: "verifyReceipt demo_platform demo_client
           \<lparr>receipt = ?r\<lparr>ipfsCid := Some ''bafyreig00'', onChainAnchor := Some ''0xaa'',
                          anchorTxHash := Some ''0xbb''\<rparr>,
            checkOnChain = Some True\<rparr> = Inr res1"
    and r2: "verifyReceipt demo_platform demo_client \<lparr>receipt = ?r, checkOnChain = None\<rparr>
               = Inr res2"
    and same: "valid res1 = valid res2"
    using verifyReceipt_valid_conjunction
            [where P = demo_platform and C = demo_client and r = ?r
               and c = "Some ''bafyreig00''" and a = "Some ''0xaa''" and t = "Some ''0xbb''"
               and oc = "Some True" and oc' = None]
    by blast
  from r2 have "valid res2" by (auto simp: scenario_B_run)
  with same r1 show ?thesis by simp
qed



text \<open>
  Claim C8. For a receipt with no attestation, \<open>verifyAllAttestations\<close> returns \<open>valid\<close> true
  and an empty map. The failure is imposed by \<open>verifyReceipt\<close>: on such a receipt its
  \<open>signaturesValid\<close> outcome is false, the result is not valid, and the errors contain
  \<open>No attestations present\<close>.
\<close>

theorem verifyAllAttestations_empty:
  assumes "attestations r = []"
  shows "verifyAllAttestations P r = Inr \<lparr>sig_valid = True, sig_results = []\<rparr> \<and>
         (\<exists>res. verifyReceipt P C \<lparr>receipt = r, checkOnChain = oc\<rparr> = Inr res \<and>
            \<not> signaturesValid (checks res) \<and> \<not> valid res \<and>
            ''No attestations present'' \<in> set (errors res))"
proof -
  have va: "verifyAllAttestations P r = Inr \<lparr>sig_valid = True, sig_results = []\<rparr>"
    using assms by (simp add: verifyAllAttestations_def)
  let ?input = "\<lparr>receipt = r, checkOnChain = oc\<rparr>"
  obtain cs1 errs1 where st1: "check_transaction C r (initial_checks, []) = (cs1, errs1)"
    by (cases "check_transaction C r (initial_checks, [])")
  have st2: "check_signatures P r (cs1, errs1) =
     Inr (cs1\<lparr>signaturesValid := False\<rparr>, errs1 @ [''No attestations present''])"
    using assms by (rule check_signatures_none)
  obtain cs3 errs3 where st3:
    "check_anchor P C (on_chain ?input) r
       (cs1\<lparr>signaturesValid := False\<rparr>, errs1 @ [''No attestations present'']) = (cs3, errs3)"
    by (cases "check_anchor P C (on_chain ?input) r
       (cs1\<lparr>signaturesValid := False\<rparr>, errs1 @ [''No attestations present''])")
  have sv3: "\<not> signaturesValid cs3"
    using check_anchor_checks [of P C "on_chain ?input" r "cs1\<lparr>signaturesValid := False\<rparr>"
            "errs1 @ [''No attestations present'']"]
    by (simp add: st3)
  have e3: "''No attestations present'' \<in> set errs3"
    using check_anchor_errors [of "errs1 @ [''No attestations present'']" P C "on_chain ?input" r
            "cs1\<lparr>signaturesValid := False\<rparr>"]
    by (simp add: st3)
  obtain cs4 errs4 where st4: "check_ipfs r (cs3, errs3) = (cs4, errs4)"
    by (cases "check_ipfs r (cs3, errs3)")
  have sv4: "\<not> signaturesValid cs4"
    using check_ipfs_checks [of r cs3 errs3] sv3 by (simp add: st4)
  have e4: "errs4 = errs3"
    using check_ipfs_errors [of r cs3 errs3] by (simp add: st4)
  have "verifyReceipt P C ?input =
      Inr \<lparr>valid = overall_valid cs4, checks = cs4, errors = errs4,
           confidence = confidence_score cs4\<rparr>"
    by (simp add: verifyReceipt_def Let_def st1 st2 st3 st4)
  with sv4 e3 e4 va show ?thesis
    by (simp add: overall_valid_def)
qed

text \<open>
  An instance, scenario A: the receipt without attestations has not the required
  attestations, and its verification is not valid, with the error message.
\<close>

theorem verifyAllAttestations_empty_witness:
  "attestations scenario_receipt = [] \<and>
   \<not> hasRequiredAttestations scenario_receipt \<and>
   verifyAllAttestations demo_platform scenario_receipt =
     Inr \<lparr>sig_valid = True, sig_results = []\<rparr> \<and>
   (case verifyReceipt demo_platform demo_client
           \<lparr>receipt = scenario_receipt, checkOnChain = None\<rparr> of
      Inl err \<Rightarrow> False
    | Inr res \<Rightarrow> \<not> valid res \<and> \<not> signaturesValid (checks res) \<and>
        ''No attestations present'' \<in> set (errors res))"
proof -
  have none: "attestations scenario_receipt = []"
    by (simp add: scenario_receipt_def)
  have req: "\<not> hasRequiredAttestations scenario_receipt"
    by (simp add: hasRequiredAttestations_def scenario_receipt_def)
  from verifyAllAttestations_empty [OF none, of demo_platform demo_client None] none req
  show ?thesis by auto
qed

text \<open>
  Claim C9. The \<open>ipfsAvailable\<close> outcome of \<open>verifyReceipt\<close> is never false. It is a function
  of the receipt's \<open>ipfsCid\<close> alone, no collaborator is asked: true when the receipt carries
  an \<open>ipfsCid\<close> (the condition of the source: the field is a non-empty string), and not
  attempted otherwise. A receipt that carries an \<open>ipfsCid\<close> therefore always has the 10
  points of content availability in its confidence: 10 more than the score of the same
  outcomes with a failed availability check.
\<close>

theorem verifyReceipt_ipfs_never_fails:
  "\<exists>res. verifyReceipt P C input = Inr res \<and>
     ipfsAvailable (checks res) \<noteq> Some False \<and>
     ipfsAvailable (checks res) =
       (if truthy (ipfsCid (receipt input)) then Some True else None) \<and>
     (truthy (ipfsCid (receipt input)) \<longrightarrow>
        ipfsAvailable (checks res) = Some True \<and>
        confidence res = confidence_score ((checks res)\<lparr>ipfsAvailable := Some False\<rparr>) + 10 \<and>
        10 \<le> confidence res)"
proof -
  obtain res b where res: "verifyReceipt P C input = Inr res"
    and cs: "checks res =
       \<lparr>transactionExists = tv_exists (verifyTransaction C (receipt input)),
        transactionMatches = tv_matches (verifyTransaction C (receipt input)),
        signaturesValid = b,
        anchorMatches =
          (if on_chain input \<and> truthy (anchorTxHash (receipt input))
           then Some (av_exists (verifyOnChainAnchor P C (receipt input))) else None),
        ipfsAvailable = (if truthy (ipfsCid (receipt input)) then Some True else None)\<rparr>"
    and c: "confidence res = confidence_score (checks res)"
    using verifyReceipt_result [of P C input] by blast
  have ia: "ipfsAvailable (checks res) =
       (if truthy (ipfsCid (receipt input)) then Some True else None)"
    by (simp add: cs)
  have pts: "confidence_score (k\<lparr>ipfsAvailable := Some True\<rparr>) =
             confidence_score (k\<lparr>ipfsAvailable := Some False\<rparr>) + 10" for k
    by (simp add: confidence_score_def Let_def)
  have low: "0 \<le> confidence_score (k\<lparr>ipfsAvailable := Some False\<rparr>)" for k
    by (rule confidence_score_bounds [THEN conjunct1])
  have "confidence res = confidence_score ((checks res)\<lparr>ipfsAvailable := Some False\<rparr>) + 10 \<and>
        10 \<le> confidence res"
    if "truthy (ipfsCid (receipt input))"
  proof -
    from that ia have "checks res = (checks res)\<lparr>ipfsAvailable := Some True\<rparr>"
      by simp
    then have "confidence res = confidence_score ((checks res)\<lparr>ipfsAvailable := Some True\<rparr>)"
      using c by simp
    then show ?thesis
      using pts [of "checks res"] low [of "checks res"] by simp
  qed
  with res ia show ?thesis by auto
qed

text \<open>
  An instance: the receipt of scenario A with a locator.
\<close>

theorem verifyReceipt_ipfs_never_fails_witness:
  "truthy (ipfsCid (scenario_receipt\<lparr>ipfsCid := Some ''bafyreig00''\<rparr>)) \<and>
   (case verifyReceipt demo_platform demo_client
           \<lparr>receipt = scenario_receipt\<lparr>ipfsCid := Some ''bafyreig00''\<rparr>,
            checkOnChain = None\<rparr> of
      Inl err \<Rightarrow> False
    | Inr res \<Rightarrow> ipfsAvailable (checks res) = Some True \<and> 10 \<le> confidence res)"
proof -
  let ?input = "\<lparr>receipt = scenario_receipt\<lparr>ipfsCid := Some ''bafyreig00''\<rparr>,
                 checkOnChain = None\<rparr>"
  have t: "truthy (ipfsCid (receipt ?input))" by simp
  from verifyReceipt_ipfs_never_fails [of demo_platform demo_client ?input] t
  show ?thesis by auto
qed

section \<open>Properties of receipt creation\<close>

lemma fetchTransactionProof_parties:
  assumes "fetchTransactionProof P C hash = Inr p"
  shows "\<exists>tx. getTransaction C hash = Inr (Some tx) \<and> tx_from p = t_from tx \<and>
              tx_to p = (case t_to tx of None \<Rightarrow> [] | Some a \<Rightarrow> a)"
  using assms
  by (auto simp: fetchTransactionProof_def split: sum.splits option.splits)

text \<open>
  Claim C10. When the transaction proof can be fetched, \<open>createReceipt\<close> returns a receipt.
  Its \<open>from\<close> is the caller's \<open>buyerAgent\<close> when that is supplied (a non-empty string, the
  condition of the source) and the sender of the on-chain transaction only when it is not;
  its \<open>to\<close> is the caller's \<open>sellerAgent\<close> when that is supplied and the recipient of the
  on-chain transaction (the empty string, if it has none) only when it is not.
\<close>

theorem createReceipt_parties:
  assumes "fetchTransactionProof P C (input_txHash input) = Inr p"
  shows "\<exists>tx rc. getTransaction C (input_txHash input) = Inr (Some tx) \<and>
           createReceipt P C uuid now input = Inr rc \<and>
           tx_from (transaction rc) =
             (if buyerAgent input \<noteq> [] then buyerAgent input else t_from tx) \<and>
           tx_to (transaction rc) =
             (if sellerAgent input \<noteq> [] then sellerAgent input
              else (case t_to tx of None \<Rightarrow> [] | Some a \<Rightarrow> a))"
proof -
  obtain tx where tx: "getTransaction C (input_txHash input) = Inr (Some tx)"
    and f: "tx_from p = t_from tx"
    and t: "tx_to p = (case t_to tx of None \<Rightarrow> [] | Some a \<Rightarrow> a)"
    using fetchTransactionProof_parties [OF assms] by blast
  show ?thesis
    using tx f t assms by (simp add: createReceipt_def Let_def)
qed

lemma createReceipt_fails:
  "fetchTransactionProof P C (input_txHash input) = Inl err \<Longrightarrow>
   createReceipt P C uuid now input = Inl err"
  by (simp add: createReceipt_def)

text \<open>
  An instance, on the stand-in chain, whose transaction is from \<open>0xAlice\<close> to \<open>0xBob\<close>: the
  supplied buyer overrides the sender, and without a seller the recipient is the one of the
  chain.
\<close>

theorem createReceipt_parties_witness:
  "(\<exists>p. fetchTransactionProof demo_platform demo_client (input_txHash scenario_input) = Inr p) \<and>
   (case createReceipt demo_platform demo_client ''r1'' ''2026-01-01T00:00:00.000Z''
           scenario_input of
      Inl err \<Rightarrow> False
    | Inr rc \<Rightarrow> tx_from (transaction rc) = ''0xBuyer'' \<and> tx_to (transaction rc) = ''0xBob'')"
proof -
  obtain p where p:
    "fetchTransactionProof demo_platform demo_client (input_txHash scenario_input) = Inr p"
    by (simp add: fetchTransactionProof_def demo_platform_def demo_client_def
        scenario_input_def)
  have tx: "getTransaction demo_client (input_txHash scenario_input) =
      Inr (Some \<lparr>t_from = ''0xAlice'', t_to = Some ''0xBob'', t_input = ''0x'',
                  t_blockHash = Some ''0xb10c''\<rparr>)"
    by (simp add: demo_client_def scenario_input_def)
  from createReceipt_parties [OF p, of "''r1''" "''2026-01-01T00:00:00.000Z''"] tx
  have "case createReceipt demo_platform demo_client ''r1'' ''2026-01-01T00:00:00.000Z''
           scenario_input of
      Inl err \<Rightarrow> False
    | Inr rc \<Rightarrow> tx_from (transaction rc) = ''0xBuyer'' \<and> tx_to (transaction rc) = ''0xBob''"
    by (auto simp: scenario_input_def)
  with p show ?thesis by blast
qed

end
